theory Spec2Isabelle
  imports Complex_Main
begin

section \<open>JavaScript values read by the batch utilities\<close>

text \<open>
  \<^verbatim>\<open>parseStoryboardSegments\<close> returns \<^verbatim>\<open>any[]\<close>: whatever \<^verbatim>\<open>JSON.parse\<close> produced. The
  values are modelled as a datatype; \<open>Undefined\<close> is what a read of a missing property
  yields. A JSON number is kept as the rational it denotes (only its being zero or not is
  ever observed). The entries of an object are its own properties.
\<close>

datatype jsval =
    Undefined
  | Null
  | Bool bool
  | Num rat
  | Str string
  | Arr "jsval list"
  | Obj "(string \<times> jsval) list"

datatype js_error = TypeError | SyntaxError

text \<open>Truthiness, as \<^verbatim>\<open>!x\<close>, \<^verbatim>\<open>x && y\<close>, \<^verbatim>\<open>x || y\<close> and \<^verbatim>\<open>x ? a : b\<close> test it.\<close>

fun truthy :: "jsval \<Rightarrow> bool" where
  "truthy Undefined = False"
| "truthy Null = False"
| "truthy (Bool b) = b"
| "truthy (Num n) = (n \<noteq> 0)"
| "truthy (Str s) = (s \<noteq> [])"
| "truthy (Arr xs) = True"
| "truthy (Obj kvs) = True"

definition js_or :: "jsval \<Rightarrow> jsval \<Rightarrow> jsval" where
  "js_or a b = (if truthy a then a else b)"

fun nullish :: "jsval \<Rightarrow> bool" where
  "nullish Undefined = True"
| "nullish Null = True"
| "nullish v = False"

text \<open>
  Reading property \<open>k\<close> of a receiver that is neither \<^verbatim>\<open>undefined\<close> nor \<^verbatim>\<open>null\<close>. The
  program only reads the names \<^verbatim>\<open>storyboards\<close>, \<^verbatim>\<open>segments\<close>, \<^verbatim>\<open>status\<close>, \<^verbatim>\<open>videoUrl\<close>, ...:
  none of them is a property of a boolean, number, string or array, so those receivers
  give \<^verbatim>\<open>undefined\<close>.
\<close>

fun own_prop :: "jsval \<Rightarrow> string \<Rightarrow> jsval" where
  "own_prop (Obj kvs) k = (case map_of kvs k of None \<Rightarrow> Undefined | Some v \<Rightarrow> v)"
| "own_prop v k = Undefined"

text \<open>\<^verbatim>\<open>x.k\<close>: a TypeError on \<^verbatim>\<open>undefined\<close> and \<^verbatim>\<open>null\<close>.\<close>

definition get_prop :: "jsval \<Rightarrow> string \<Rightarrow> js_error + jsval" where
  "get_prop v k = (if nullish v then Inl TypeError else Inr (own_prop v k))"

text \<open>\<^verbatim>\<open>x?.k\<close>: \<^verbatim>\<open>undefined\<close> on \<^verbatim>\<open>undefined\<close> and \<^verbatim>\<open>null\<close>.\<close>

definition opt_prop :: "jsval \<Rightarrow> string \<Rightarrow> jsval" where
  "opt_prop v k = (if nullish v then Undefined else own_prop v k)"

fun isArray :: "jsval \<Rightarrow> bool" where
  "isArray (Arr xs) = True"
| "isArray v = False"

fun elems :: "jsval \<Rightarrow> jsval list" where
  "elems (Arr xs) = xs"
| "elems v = []"

text \<open>An optional string field of a typed object, read as a value.\<close>

fun of_opt_string :: "string option \<Rightarrow> jsval" where
  "of_opt_string None = Undefined"
| "of_opt_string (Some s) = Str s"

text \<open>\<^verbatim>\<open>xs[i]\<close>: \<^verbatim>\<open>undefined\<close> out of range.\<close>

definition nth_opt :: "'a list \<Rightarrow> nat \<Rightarrow> 'a option" where
  "nth_opt xs i = (if i < length xs then Some (xs ! i) else None)"

definition at_index :: "jsval list \<Rightarrow> nat \<Rightarrow> jsval" where
  "at_index xs i = (case nth_opt xs i of None \<Rightarrow> Undefined | Some v \<Rightarrow> v)"

text \<open>
  \<^verbatim>\<open>JSON.parse\<close> belongs to the JavaScript runtime, not to the repository: it is a
  parameter of the model, \<open>None\<close> where it throws a SyntaxError.
\<close>

type_synonym json_parser = "string \<Rightarrow> jsval option"

section \<open>The task data (types/index.ts)\<close>

record BatchSegment =
  seg_videoUrl :: "string option"
  seg_lastFrameUrl :: "string option"
  seg_status :: string

record BatchTask =
  task_id :: string
  actorId :: "string option"
  projectId :: "string option"
  openingImageUrl :: "string option"
  sceneDescription :: "string option"
  templateId :: "string option"
  segmentCount :: nat
  storyboardJson :: "string option"
  segments :: "BatchSegment list"
  finalVideoUrl :: "string option"
  task_status :: string
  task_errorMessage :: "string option"
  progress :: string
  task_updatedAt :: "string option"
  publishDate :: "string option"

text \<open>An optional string is truthy when it is present and not empty.\<close>

definition present :: "string option \<Rightarrow> bool" where
  "present s = truthy (of_opt_string s)"

section \<open>parseStoryboardSegments (lib/batchUtils.ts)\<close>

text \<open>The body of the \<^verbatim>\<open>try\<close> block after \<^verbatim>\<open>JSON.parse\<close>; it throws where a property read does.\<close>

definition parse_try_body :: "jsval \<Rightarrow> js_error + jsval list" where
  "parse_try_body parsed =
     (case get_prop parsed ''storyboards'' of
        Inl e \<Rightarrow> Inl e
      | Inr sb \<Rightarrow>
          if truthy sb \<and> isArray sb then Inr (elems sb)
          else (case get_prop parsed ''segments'' of
                  Inl e \<Rightarrow> Inl e
                | Inr sg \<Rightarrow>
                    if truthy sg \<and> isArray sg then Inr (elems sg)
                    else if isArray parsed then Inr (elems parsed)
                    else Inr []))"

definition parseStoryboardSegments :: "json_parser \<Rightarrow> string option \<Rightarrow> jsval list" where
  "parseStoryboardSegments json_parse sbJson =
     (case sbJson of
        None \<Rightarrow> []
      | Some s \<Rightarrow>
          if s = [] then []
          else (case json_parse s of
                  None \<Rightarrow> []
                | Some parsed \<Rightarrow>
                    (case parse_try_body parsed of Inl e \<Rightarrow> [] | Inr xs \<Rightarrow> xs)))"

text \<open>
  The result in the specification's words, as a function of the parsed value: the embedded array of
  \<^verbatim>\<open>{storyboards: [...]}\<close> or \<^verbatim>\<open>{segments: [...]}\<close>, a bare array itself, the empty array for
  everything else.
\<close>

fun embedded_array :: "jsval \<Rightarrow> jsval list" where
  "embedded_array (Obj kvs) =
     (case map_of kvs ''storyboards'' of
        Some (Arr xs) \<Rightarrow> xs
      | _ \<Rightarrow> (case map_of kvs ''segments'' of Some (Arr ys) \<Rightarrow> ys | _ \<Rightarrow> []))"
| "embedded_array (Arr xs) = xs"
| "embedded_array v = []"

definition parse_outcome :: "json_parser \<Rightarrow> string option \<Rightarrow> jsval option" where
  "parse_outcome json_parse sbJson =
     (case sbJson of
        None \<Rightarrow> None
      | Some s \<Rightarrow> if s = [] then None else json_parse s)"

section \<open>getNextSegmentIndex (lib/batchUtils.ts)\<close>

text \<open>
  The entries of the local \<^verbatim>\<open>segments\<close>: either \<^verbatim>\<open>task.segments\<close> as they are, or the
  objects \<^verbatim>\<open>{status, videoUrl, lastFrameUrl}\<close> built from the storyboard entries.
\<close>

record seg_view =
  sv_status :: jsval
  sv_videoUrl :: jsval
  sv_lastFrameUrl :: jsval

definition view_of_segment :: "BatchSegment \<Rightarrow> seg_view" where
  "view_of_segment s =
     \<lparr>sv_status = Str (seg_status s),
      sv_videoUrl = of_opt_string (seg_videoUrl s),
      sv_lastFrameUrl = of_opt_string (seg_lastFrameUrl s)\<rparr>"

text \<open>
  The callback of \<^verbatim>\<open>.map\<close>: \<^verbatim>\<open>seg.status\<close> is a plain property read, so an entry that is
  \<^verbatim>\<open>null\<close> throws a TypeError.
\<close>

definition view_of_entry :: "jsval \<Rightarrow> js_error + seg_view" where
  "view_of_entry seg =
     (if nullish seg then Inl TypeError
      else Inr \<lparr>sv_status = js_or (own_prop seg ''status'') (Str ''pending''),
                sv_videoUrl = js_or (own_prop seg ''videoUrl'') (own_prop seg ''video_url''),
                sv_lastFrameUrl =
                  js_or (own_prop seg ''lastFrameUrl'') (own_prop seg ''last_frame_url'')\<rparr>)"

text \<open>\<^verbatim>\<open>xs.map(f)\<close> where \<open>f\<close> may throw: the first exception ends the whole call.\<close>

fun map_throwing :: "('a \<Rightarrow> 'e + 'b) \<Rightarrow> 'a list \<Rightarrow> 'e + 'b list" where
  "map_throwing f [] = Inr []"
| "map_throwing f (x # xs) =
     (case f x of
        Inl e \<Rightarrow> Inl e
      | Inr y \<Rightarrow> (case map_throwing f xs of Inl e \<Rightarrow> Inl e | Inr ys \<Rightarrow> Inr (y # ys)))"

definition startsWith :: "string \<Rightarrow> string \<Rightarrow> bool" where
  "startsWith s p = (take (length p) s = p)"

definition local_segments :: "json_parser \<Rightarrow> BatchTask \<Rightarrow> js_error + seg_view list" where
  "local_segments json_parse task =
     (if length (segments task) > 0 then Inr (map view_of_segment (segments task))
      else map_throwing view_of_entry
             (parseStoryboardSegments json_parse (storyboardJson task)))"

text \<open>\<^verbatim>\<open>prevSeg?.status\<close> of \<^verbatim>\<open>segments[i - 1]\<close>.\<close>

definition status_at :: "seg_view list \<Rightarrow> nat \<Rightarrow> jsval" where
  "status_at segs j = (case nth_opt segs j of None \<Rightarrow> Undefined | Some p \<Rightarrow> sv_status p)"

text \<open>The \<^verbatim>\<open>for\<close> loop, from index \<open>i\<close> on.\<close>

function next_segment_loop :: "BatchTask \<Rightarrow> seg_view list \<Rightarrow> nat \<Rightarrow> nat option" where
  "next_segment_loop task segs i =
     (if i < length segs then
        (if js_or (sv_status (segs ! i)) (Str ''pending'') \<noteq> Str ''completed'' then
           (if i = 0 then (if present (openingImageUrl task) then Some 0 else None)
            else (if js_or (status_at segs (i - 1)) (Str ''pending'') = Str ''completed''
                  then Some i else None))
         else next_segment_loop task segs (i + 1))
      else None)"
  by pat_completeness auto
termination
  by (relation "measure (\<lambda>(task, segs, i). length segs - i)") auto

declare next_segment_loop.simps [simp del]

definition in_flight :: "string \<Rightarrow> bool" where
  "in_flight st =
     (startsWith st ''generating_segment_'' \<or> st = ''merging'' \<or> st = ''storyboard_generating'')"

definition getNextSegmentIndex :: "json_parser \<Rightarrow> BatchTask \<Rightarrow> js_error + nat option" where
  "getNextSegmentIndex json_parse task =
     (if \<not> present (storyboardJson task) then Inr None
      else if in_flight (task_status task) then Inr None
      else if task_status task = ''completed'' then Inr None
      else (case local_segments json_parse task of
              Inl e \<Rightarrow> Inl e
            | Inr segs \<Rightarrow>
                if length segs = 0 then Inr None
                else Inr (next_segment_loop task segs 0)))"

section \<open>calculatePendingSegments and groupTasksBySegmentIndex (lib/batchUtils.ts)\<close>

definition tasksToProcess :: "BatchTask list \<Rightarrow> string list \<Rightarrow> BatchTask list" where
  "tasksToProcess tasks selectedRecordIds =
     (if length selectedRecordIds > 0
      then filter (\<lambda>t. task_id t \<in> set selectedRecordIds) tasks
      else tasks)"

text \<open>The two labels: \<^verbatim>\<open>'Opening Image'\<close> and the last frame of segment \<open>n\<close>.\<close>

datatype frame_label = OpeningImage | LastFrameOf nat

record storyboard_fields =
  sf_id :: jsval
  sf_segmentIndex :: nat
  sf_segmentType :: jsval
  sf_crucial :: jsval
  sf_action :: jsval
  sf_sound :: jsval
  sf_negative_constraint :: jsval
  sf_prompt :: jsval
  sf_status :: jsval
  sf_crucial_zh :: jsval
  sf_action_zh :: jsval
  sf_sound_zh :: jsval
  sf_negative_constraint_zh :: jsval

record PendingSegmentInfo =
  taskId :: string
  taskIndex :: nat
  info_projectId :: string
  segmentIndex :: nat
  segment :: "storyboard_fields option"
  inputFrameUrl :: jsval
  inputFrameLabel :: frame_label

text \<open>The decimal digits of a number, for \<^verbatim>\<open>`segment-${nextSeg}`\<close>.\<close>

function show_nat :: "nat \<Rightarrow> string" where
  "show_nat n =
     (if n < 10 then [''0123456789'' ! n]
      else show_nat (n div 10) @ [''0123456789'' ! (n mod 10)])"
  by pat_completeness auto
termination
  by (relation "measure (\<lambda>n. n)") auto

declare show_nat.simps [simp del]

definition build_segment :: "jsval \<Rightarrow> nat \<Rightarrow> storyboard_fields option" where
  "build_segment segmentData nextSeg =
     (if truthy segmentData then
        Some \<lparr>sf_id = js_or (own_prop segmentData ''id'') (Str (''segment-'' @ show_nat nextSeg)),
              sf_segmentIndex = nextSeg,
              sf_segmentType =
                js_or (js_or (own_prop segmentData ''segment_type'')
                             (own_prop segmentData ''segmentType''))
                      (Str ''eating''),
              sf_crucial = js_or (own_prop segmentData ''crucial'') (Str ''''),
              sf_action = js_or (own_prop segmentData ''action'') (Str ''''),
              sf_sound = js_or (own_prop segmentData ''sound'') (Str ''''),
              sf_negative_constraint =
                js_or (own_prop segmentData ''negative_constraint'') (Str ''''),
              sf_prompt = js_or (own_prop segmentData ''prompt'') (Str ''''),
              sf_status = js_or (own_prop segmentData ''status'') (Str ''pending''),
              sf_crucial_zh = js_or (own_prop segmentData ''crucial_zh'') (Str ''''),
              sf_action_zh = js_or (own_prop segmentData ''action_zh'') (Str ''''),
              sf_sound_zh = js_or (own_prop segmentData ''sound_zh'') (Str ''''),
              sf_negative_constraint_zh =
                js_or (own_prop segmentData ''negative_constraint_zh'') (Str '''')\<rparr>
      else None)"

text \<open>
  \<^verbatim>\<open>prevSegFromTask?.lastFrameUrl || prevSegFromStoryboard?.lastFrameUrl ||
  prevSegFromStoryboard?.last_frame_url\<close> for the segment at index \<open>j\<close>.
\<close>

definition prev_last_frame :: "BatchTask \<Rightarrow> jsval list \<Rightarrow> nat \<Rightarrow> jsval" where
  "prev_last_frame task storyboards j =
     js_or (js_or (case nth_opt (segments task) j of
                     None \<Rightarrow> Undefined
                   | Some p \<Rightarrow> of_opt_string (seg_lastFrameUrl p))
                  (opt_prop (at_index storyboards j) ''lastFrameUrl''))
           (opt_prop (at_index storyboards j) ''last_frame_url'')"

definition input_frame :: "BatchTask \<Rightarrow> jsval list \<Rightarrow> nat \<Rightarrow> jsval \<times> frame_label" where
  "input_frame task storyboards nextSeg =
     (if nextSeg = 0 then (of_opt_string (openingImageUrl task), OpeningImage)
      else (prev_last_frame task storyboards (nextSeg - 1), LastFrameOf (nextSeg - 1)))"

text \<open>One call of the \<^verbatim>\<open>forEach\<close> callback: \<open>None\<close> where it returns without a push.\<close>

definition pending_of_task ::
  "json_parser \<Rightarrow> BatchTask \<Rightarrow> nat \<Rightarrow> js_error + PendingSegmentInfo option" where
  "pending_of_task json_parse task idx =
     (case getNextSegmentIndex json_parse task of
        Inl e \<Rightarrow> Inl e
      | Inr None \<Rightarrow> Inr None
      | Inr (Some nextSeg) \<Rightarrow>
          (let storyboards = parseStoryboardSegments json_parse (storyboardJson task) in
           if nextSeg \<ge> length storyboards then Inr None
           else Inr (Some \<lparr>taskId = task_id task,
                            taskIndex = idx,
                            info_projectId = (case projectId task of None \<Rightarrow> [] | Some p \<Rightarrow> p),
                            segmentIndex = nextSeg,
                            segment = build_segment (at_index storyboards nextSeg) nextSeg,
                            inputFrameUrl = fst (input_frame task storyboards nextSeg),
                            inputFrameLabel = snd (input_frame task storyboards nextSeg)\<rparr>)))"

fun pending_loop ::
  "json_parser \<Rightarrow> BatchTask list \<Rightarrow> nat \<Rightarrow> PendingSegmentInfo list
     \<Rightarrow> js_error + PendingSegmentInfo list" where
  "pending_loop json_parse [] idx acc = Inr acc"
| "pending_loop json_parse (task # rest) idx acc =
     (case pending_of_task json_parse task idx of
        Inl e \<Rightarrow> Inl e
      | Inr None \<Rightarrow> pending_loop json_parse rest (idx + 1) acc
      | Inr (Some info) \<Rightarrow> pending_loop json_parse rest (idx + 1) (acc @ [info]))"

definition calculatePendingSegments ::
  "json_parser \<Rightarrow> BatchTask list \<Rightarrow> string list \<Rightarrow> js_error + PendingSegmentInfo list" where
  "calculatePendingSegments json_parse tasks selectedRecordIds =
     pending_loop json_parse (tasksToProcess tasks selectedRecordIds) 0 []"

text \<open>
  \<^verbatim>\<open>Record<number, string[]>\<close> as an association list with one entry per key;
  \<open>push_group\<close> is \<^verbatim>\<open>if (!g[k]) g[k] = []; g[k].push(v)\<close>.
\<close>

type_synonym segment_groups = "(nat \<times> string list) list"

definition push_group :: "segment_groups \<Rightarrow> nat \<Rightarrow> string \<Rightarrow> segment_groups" where
  "push_group groups k v =
     (case map_of groups k of
        None \<Rightarrow> groups @ [(k, [v])]
      | Some ids \<Rightarrow> map (\<lambda>(k', ids'). if k' = k then (k', ids' @ [v]) else (k', ids')) groups)"

fun group_loop ::
  "json_parser \<Rightarrow> BatchTask list \<Rightarrow> segment_groups \<Rightarrow> js_error + segment_groups" where
  "group_loop json_parse [] groups = Inr groups"
| "group_loop json_parse (task # rest) groups =
     (case getNextSegmentIndex json_parse task of
        Inl e \<Rightarrow> Inl e
      | Inr None \<Rightarrow> group_loop json_parse rest groups
      | Inr (Some nextSeg) \<Rightarrow>
          group_loop json_parse rest (push_group groups nextSeg (task_id task)))"

definition groupTasksBySegmentIndex ::
  "json_parser \<Rightarrow> BatchTask list \<Rightarrow> string list \<Rightarrow> js_error + segment_groups" where
  "groupTasksBySegmentIndex json_parse tasks selectedRecordIds =
     group_loop json_parse (tasksToProcess tasks selectedRecordIds) []"

section \<open>The task filters (lib/batchUtils.ts)\<close>

definition filterTasksForStoryboard :: "BatchTask list \<Rightarrow> BatchTask list" where
  "filterTasksForStoryboard tasks =
     filter (\<lambda>t. present (openingImageUrl t)
                  \<and> (task_status t = ''pending'' \<or> task_status t = ''storyboard_ready''))
            tasks"

definition filterTasksForMerge :: "BatchTask list \<Rightarrow> BatchTask list" where
  "filterTasksForMerge tasks = filter (\<lambda>t. task_status t = ''all_segments_ready'') tasks"

definition filterTasksWithProject :: "BatchTask list \<Rightarrow> BatchTask list" where
  "filterTasksWithProject tasks = filter (\<lambda>t. present (projectId t)) tasks"

section \<open>The page state and its reducer (pages/BatchPage.types.ts, BatchPage.reducer.ts)\<close>

datatype PageStatus =
    Idle
  | Connecting
  | LoadingTasks
  | GeneratingStoryboard
  | GeneratingSegment
  | Merging
  | Syncing
  | UploadingToDrive
  | ErrorStatus

record FeishuConfig =
  appId :: string
  appSecret :: string
  appToken :: "string option"
  tenantAccessToken :: "string option"
  tableId :: string
  connected :: bool
  tableName :: "string option"
  recordCount :: "nat option"
  driveFolderToken :: "string option"

record BatchSettings =
  storyboardConcurrency :: nat
  videoConcurrency :: nat
  writebackBatchSize :: nat

text \<open>\<^verbatim>\<open>Partial<...>\<close>: \<open>None\<close> is a key the payload does not carry.\<close>

record PartialFeishuConfig =
  p_appId :: "string option"
  p_appSecret :: "string option"
  p_appToken :: "string option"
  p_tenantAccessToken :: "string option"
  p_tableId :: "string option"
  p_connected :: "bool option"
  p_tableName :: "string option"
  p_recordCount :: "nat option"
  p_driveFolderToken :: "string option"

record PartialBatchSettings =
  p_storyboardConcurrency :: "nat option"
  p_videoConcurrency :: "nat option"
  p_writebackBatchSize :: "nat option"

record PageState =
  page_status :: PageStatus
  errorMessage :: "string option"
  feishuConfig :: FeishuConfig
  page_tasks :: "BatchTask list"
  selectedTaskId :: "string option"
  selectedRecordIds :: "string list"
  statusFilter :: string
  showDetail :: bool
  sidebarCollapsed :: bool
  showBatchEditModal :: bool
  queueOpen :: bool
  currentSegmentIndex :: nat
  settings :: BatchSettings

datatype PageAction =
    CONNECT_START
  | CONNECT_SUCCESS string nat "string option"
  | CONNECT_FAILURE string
  | DISCONNECT
  | LOAD_TASKS_START
  | LOAD_TASKS_SUCCESS "BatchTask list"
  | LOAD_TASKS_FAILURE string
  | GENERATE_STORYBOARD_START
  | GENERATE_STORYBOARD_SUCCESS nat nat
  | GENERATE_STORYBOARD_FAILURE string
  | GENERATE_SEGMENT_START nat
  | GENERATE_SEGMENT_SUCCESS nat nat
  | GENERATE_SEGMENT_FAILURE string
  | MERGE_START
  | MERGE_SUCCESS nat nat
  | MERGE_FAILURE string
  | SYNC_START
  | SYNC_SUCCESS
  | SYNC_FAILURE string
  | UPLOAD_TO_DRIVE_START
  | UPLOAD_TO_DRIVE_SUCCESS nat nat nat
  | UPLOAD_TO_DRIVE_FAILURE string
  | SELECT_TASK "string option"
  | SET_SELECTED_RECORDS "string list"
  | SET_STATUS_FILTER string
  | SET_SHOW_DETAIL bool
  | SET_SIDEBAR_COLLAPSED bool
  | SET_SHOW_BATCH_EDIT_MODAL bool
  | SET_QUEUE_OPEN bool
  | UPDATE_FEISHU_CONFIG PartialFeishuConfig
  | UPDATE_SETTINGS PartialBatchSettings
  | CLEAR_ERROR

text \<open>\<^verbatim>\<open>{...config, ...payload}\<close>: a key of the payload replaces the one of the config.\<close>

definition override :: "'a \<Rightarrow> 'a option \<Rightarrow> 'a" where
  "override old new = (case new of None \<Rightarrow> old | Some v \<Rightarrow> v)"

definition override_opt :: "'a option \<Rightarrow> 'a option \<Rightarrow> 'a option" where
  "override_opt old new = (case new of None \<Rightarrow> old | Some v \<Rightarrow> Some v)"

definition spread_config :: "FeishuConfig \<Rightarrow> PartialFeishuConfig \<Rightarrow> FeishuConfig" where
  "spread_config c p =
     \<lparr>appId = override (appId c) (p_appId p),
      appSecret = override (appSecret c) (p_appSecret p),
      appToken = override_opt (appToken c) (p_appToken p),
      tenantAccessToken = override_opt (tenantAccessToken c) (p_tenantAccessToken p),
      tableId = override (tableId c) (p_tableId p),
      connected = override (connected c) (p_connected p),
      tableName = override_opt (tableName c) (p_tableName p),
      recordCount = override_opt (recordCount c) (p_recordCount p),
      driveFolderToken = override_opt (driveFolderToken c) (p_driveFolderToken p)\<rparr>"

definition spread_settings :: "BatchSettings \<Rightarrow> PartialBatchSettings \<Rightarrow> BatchSettings" where
  "spread_settings s p =
     \<lparr>storyboardConcurrency = override (storyboardConcurrency s) (p_storyboardConcurrency p),
      videoConcurrency = override (videoConcurrency s) (p_videoConcurrency p),
      writebackBatchSize = override (writebackBatchSize s) (p_writebackBatchSize p)\<rparr>"

fun pageReducer :: "PageState \<Rightarrow> PageAction \<Rightarrow> PageState" where
  "pageReducer state CONNECT_START =
     state\<lparr>page_status := Connecting, errorMessage := None\<rparr>"
| "pageReducer state (CONNECT_SUCCESS name cnt token) =
     state\<lparr>page_status := Idle,
           feishuConfig := (feishuConfig state)
             \<lparr>connected := True,
              tableName := Some name,
              recordCount := Some cnt,
              driveFolderToken :=
                (if present token then token else driveFolderToken (feishuConfig state))\<rparr>\<rparr>"
| "pageReducer state (CONNECT_FAILURE msg) =
     state\<lparr>page_status := ErrorStatus, errorMessage := Some msg\<rparr>"
| "pageReducer state DISCONNECT =
     state\<lparr>feishuConfig := (feishuConfig state)\<lparr>connected := False\<rparr>\<rparr>"
| "pageReducer state LOAD_TASKS_START =
     state\<lparr>page_status := LoadingTasks, errorMessage := None\<rparr>"
| "pageReducer state (LOAD_TASKS_SUCCESS ts) =
     state\<lparr>page_status := Idle, page_tasks := ts\<rparr>"
| "pageReducer state (LOAD_TASKS_FAILURE msg) =
     state\<lparr>page_status := ErrorStatus, errorMessage := Some msg\<rparr>"
| "pageReducer state GENERATE_STORYBOARD_START =
     state\<lparr>page_status := GeneratingStoryboard, errorMessage := None\<rparr>"
| "pageReducer state (GENERATE_STORYBOARD_SUCCESS ok bad) = state\<lparr>page_status := Idle\<rparr>"
| "pageReducer state (GENERATE_STORYBOARD_FAILURE msg) =
     state\<lparr>page_status := ErrorStatus, errorMessage := Some msg\<rparr>"
| "pageReducer state (GENERATE_SEGMENT_START k) =
     state\<lparr>page_status := GeneratingSegment, currentSegmentIndex := k, errorMessage := None\<rparr>"
| "pageReducer state (GENERATE_SEGMENT_SUCCESS ok bad) = state\<lparr>page_status := Idle\<rparr>"
| "pageReducer state (GENERATE_SEGMENT_FAILURE msg) =
     state\<lparr>page_status := ErrorStatus, errorMessage := Some msg\<rparr>"
| "pageReducer state MERGE_START = state\<lparr>page_status := Merging, errorMessage := None\<rparr>"
| "pageReducer state (MERGE_SUCCESS ok bad) = state\<lparr>page_status := Idle\<rparr>"
| "pageReducer state (MERGE_FAILURE msg) =
     state\<lparr>page_status := ErrorStatus, errorMessage := Some msg\<rparr>"
| "pageReducer state SYNC_START = state\<lparr>page_status := Syncing, errorMessage := None\<rparr>"
| "pageReducer state SYNC_SUCCESS = state\<lparr>page_status := Idle\<rparr>"
| "pageReducer state (SYNC_FAILURE msg) =
     state\<lparr>page_status := ErrorStatus, errorMessage := Some msg\<rparr>"
| "pageReducer state UPLOAD_TO_DRIVE_START =
     state\<lparr>page_status := UploadingToDrive, errorMessage := None\<rparr>"
| "pageReducer state (UPLOAD_TO_DRIVE_SUCCESS ok tot bad) = state\<lparr>page_status := Idle\<rparr>"
| "pageReducer state (UPLOAD_TO_DRIVE_FAILURE msg) =
     state\<lparr>page_status := ErrorStatus, errorMessage := Some msg\<rparr>"
| "pageReducer state (SELECT_TASK tid) = state\<lparr>selectedTaskId := tid\<rparr>"
| "pageReducer state (SET_SELECTED_RECORDS ids) = state\<lparr>selectedRecordIds := ids\<rparr>"
| "pageReducer state (SET_STATUS_FILTER f) = state\<lparr>statusFilter := f\<rparr>"
| "pageReducer state (SET_SHOW_DETAIL b) = state\<lparr>showDetail := b\<rparr>"
| "pageReducer state (SET_SIDEBAR_COLLAPSED b) = state\<lparr>sidebarCollapsed := b\<rparr>"
| "pageReducer state (SET_SHOW_BATCH_EDIT_MODAL b) = state\<lparr>showBatchEditModal := b\<rparr>"
| "pageReducer state (SET_QUEUE_OPEN b) = state\<lparr>queueOpen := b\<rparr>"
| "pageReducer state (UPDATE_FEISHU_CONFIG p) =
     state\<lparr>feishuConfig := spread_config (feishuConfig state) p\<rparr>"
| "pageReducer state (UPDATE_SETTINGS p) =
     state\<lparr>settings := spread_settings (settings state) p\<rparr>"
| "pageReducer state CLEAR_ERROR = state\<lparr>page_status := Idle, errorMessage := None\<rparr>"

text \<open>The three families of actions the reducer treats alike.\<close>

fun is_start :: "PageAction \<Rightarrow> bool" where
  "is_start CONNECT_START = True"
| "is_start LOAD_TASKS_START = True"
| "is_start GENERATE_STORYBOARD_START = True"
| "is_start (GENERATE_SEGMENT_START k) = True"
| "is_start MERGE_START = True"
| "is_start SYNC_START = True"
| "is_start UPLOAD_TO_DRIVE_START = True"
| "is_start a = False"

fun failure_payload :: "PageAction \<Rightarrow> string option" where
  "failure_payload (CONNECT_FAILURE msg) = Some msg"
| "failure_payload (LOAD_TASKS_FAILURE msg) = Some msg"
| "failure_payload (GENERATE_STORYBOARD_FAILURE msg) = Some msg"
| "failure_payload (GENERATE_SEGMENT_FAILURE msg) = Some msg"
| "failure_payload (MERGE_FAILURE msg) = Some msg"
| "failure_payload (SYNC_FAILURE msg) = Some msg"
| "failure_payload (UPLOAD_TO_DRIVE_FAILURE msg) = Some msg"
| "failure_payload a = None"

section \<open>The batch handlers of the page (pages/BatchPage.reducer.ts, second part)\<close>

text \<open>
  The calls to the backend are parameters of the handlers: a call returns its data or
  throws. What is kept of a handler run is what it sends to the backend and what it
  dispatches to the reducer; toasts, console output and the refresh started by
  \<^verbatim>\<open>loadTasks()\<close> (an operation of its own, not awaited) are left out.
\<close>

datatype thrown = Error string | NotAnError

text \<open>\<^verbatim>\<open>error instanceof Error ? error.message : fallback\<close>\<close>

fun message_of :: "thrown \<Rightarrow> string \<Rightarrow> string" where
  "message_of (Error m) fallback = m"
| "message_of NotAnError fallback = fallback"

text \<open>The fallback literals of the three handlers, as the UTF-8 bytes of the source text.\<close>

definition generate_failed :: string where
  "generate_failed =
     [CHR 0xE7, CHR 0x94, CHR 0x9F, CHR 0xE6, CHR 0x88, CHR 0x90,
      CHR 0xE5, CHR 0xA4, CHR 0xB1, CHR 0xE8, CHR 0xB4, CHR 0xA5]"

definition merge_failed :: string where
  "merge_failed =
     [CHR 0xE5, CHR 0x90, CHR 0x88, CHR 0xE5, CHR 0xB9, CHR 0xB6,
      CHR 0xE5, CHR 0xA4, CHR 0xB1, CHR 0xE8, CHR 0xB4, CHR 0xA5]"

definition advance_failed :: string where
  "advance_failed =
     [CHR 0xE6, CHR 0x8E, CHR 0xA8, CHR 0xE8, CHR 0xBF, CHR 0x9B,
      CHR 0xE5, CHR 0xA4, CHR 0xB1, CHR 0xE8, CHR 0xB4, CHR 0xA5]"

record batch_counts =
  success_count :: nat
  failed_count :: nat

record GenerateStoryboardsParams =
  gsb_tableId :: string
  gsb_recordIds :: "string list"
  gsb_concurrency :: nat

record MergeVideosParams =
  mv_tableId :: string
  mv_recordIds :: "string list"

record GenerateSegmentsParams =
  gs_tableId :: string
  gs_recordIds :: "string list"
  gs_segmentIndex :: nat
  gs_concurrency :: nat

text \<open>What a handler did: the requests it sent, in order, and the actions it dispatched.\<close>

record 'req handler_run =
  requests :: "'req list"
  dispatched :: "PageAction list"

definition handleGenerateStoryboards ::
  "(GenerateStoryboardsParams \<Rightarrow> thrown + batch_counts) \<Rightarrow> PageState
     \<Rightarrow> GenerateStoryboardsParams handler_run" where
  "handleGenerateStoryboards generateStoryboards state =
     (let toProcess = tasksToProcess (page_tasks state) (selectedRecordIds state) in
      if length toProcess = 0 then \<lparr>requests = [], dispatched = []\<rparr>
      else
        (let pendingTasks = filterTasksForStoryboard toProcess in
         if length pendingTasks = 0 then \<lparr>requests = [], dispatched = []\<rparr>
         else
           (let req = \<lparr>gsb_tableId = tableId (feishuConfig state),
                        gsb_recordIds = map task_id pendingTasks,
                        gsb_concurrency = storyboardConcurrency (settings state)\<rparr>
            in \<lparr>requests = [req],
                dispatched =
                  [GENERATE_STORYBOARD_START,
                   (case generateStoryboards req of
                      Inr data \<Rightarrow>
                        GENERATE_STORYBOARD_SUCCESS (success_count data) (failed_count data)
                    | Inl err \<Rightarrow>
                        GENERATE_STORYBOARD_FAILURE (message_of err generate_failed))]\<rparr>)))"

definition handleMergeVideos ::
  "(MergeVideosParams \<Rightarrow> thrown + batch_counts) \<Rightarrow> PageState
     \<Rightarrow> MergeVideosParams handler_run" where
  "handleMergeVideos mergeVideos state =
     (let toProcess = tasksToProcess (page_tasks state) (selectedRecordIds state) in
      if length toProcess = 0 then \<lparr>requests = [], dispatched = []\<rparr>
      else
        (let readyTasks = filterTasksForMerge toProcess in
         if length readyTasks = 0 then \<lparr>requests = [], dispatched = []\<rparr>
         else
           (let req = \<lparr>mv_tableId = tableId (feishuConfig state),
                        mv_recordIds = map task_id readyTasks\<rparr>
            in \<lparr>requests = [req],
                dispatched =
                  [MERGE_START,
                   (case mergeVideos req of
                      Inr data \<Rightarrow> MERGE_SUCCESS (success_count data) (failed_count data)
                    | Inl err \<Rightarrow> MERGE_FAILURE (message_of err merge_failed))]\<rparr>)))"

subsection \<open>handleBatchEditConfirm\<close>

record prompt_fields =
  crucial :: string
  action :: string
  sound :: string
  negative_constraint :: string
  crucial_zh :: "string option"
  action_zh :: "string option"
  sound_zh :: "string option"
  negative_constraint_zh :: "string option"

record batch_edit =
  edit_taskId :: string
  edit_projectId :: string
  edit_segmentIndex :: nat
  edit_fields :: prompt_fields
  isModified :: bool

record BatchSavePromptsItem =
  record_id :: string
  project_id :: string
  segment_index :: nat
  item_crucial :: string
  item_action :: string
  item_sound :: string
  item_negative_constraint :: string
  item_crucial_zh :: string
  item_action_zh :: string
  item_sound_zh :: string
  item_negative_constraint_zh :: string
  is_modified :: bool

text \<open>\<^verbatim>\<open>s || ''\<close> on an optional string.\<close>

definition or_empty :: "string option \<Rightarrow> string" where
  "or_empty s = (case s of None \<Rightarrow> [] | Some v \<Rightarrow> v)"

definition save_item_of :: "batch_edit \<Rightarrow> BatchSavePromptsItem" where
  "save_item_of e =
     \<lparr>record_id = edit_taskId e,
      project_id = edit_projectId e,
      segment_index = edit_segmentIndex e,
      item_crucial = crucial (edit_fields e),
      item_action = action (edit_fields e),
      item_sound = sound (edit_fields e),
      item_negative_constraint = negative_constraint (edit_fields e),
      item_crucial_zh = or_empty (crucial_zh (edit_fields e)),
      item_action_zh = or_empty (action_zh (edit_fields e)),
      item_sound_zh = or_empty (sound_zh (edit_fields e)),
      item_negative_constraint_zh = or_empty (negative_constraint_zh (edit_fields e)),
      is_modified = True\<rparr>"

text \<open>Step 2: the \<^verbatim>\<open>forEach\<close> that fills \<^verbatim>\<open>segmentGroups\<close>.\<close>

fun group_edits :: "batch_edit list \<Rightarrow> segment_groups \<Rightarrow> segment_groups" where
  "group_edits [] groups = groups"
| "group_edits (e # rest) groups =
     group_edits rest (push_group groups (edit_segmentIndex e) (edit_taskId e))"

text \<open>\<^verbatim>\<open>Object.keys(segmentGroups).map(Number).sort((a, b) => a - b)\<close>\<close>

definition segmentIndices :: "segment_groups \<Rightarrow> nat list" where
  "segmentIndices groups = sort (map fst groups)"

text \<open>\<^verbatim>\<open>n || 0\<close> on a number.\<close>

definition or_zero :: "nat \<Rightarrow> nat" where
  "or_zero n = (if n \<noteq> 0 then n else 0)"

text \<open>
  The state of the \<^verbatim>\<open>for\<close> loop over the segment indices. \<open>fan_thrown\<close> is an exception
  that leaves the loop for the outer \<^verbatim>\<open>catch\<close>: reading \<^verbatim>\<open>recordIds.length\<close> of a missing
  group. An exception of the call itself stays inside the inner \<^verbatim>\<open>try\<close>.
\<close>

record fanout =
  totalSuccess :: nat
  totalFailed :: nat
  fan_requests :: "GenerateSegmentsParams list"
  fan_dispatched :: "PageAction list"
  fan_thrown :: "thrown option"

definition fan_step ::
  "(GenerateSegmentsParams \<Rightarrow> thrown + batch_counts) \<Rightarrow> PageState \<Rightarrow> segment_groups
     \<Rightarrow> nat \<Rightarrow> fanout \<Rightarrow> fanout" where
  "fan_step generateSegments state groups k acc =
     (let started = acc\<lparr>fan_dispatched := fan_dispatched acc @ [GENERATE_SEGMENT_START k]\<rparr> in
      case map_of groups k of
        None \<Rightarrow> started\<lparr>fan_thrown := Some (Error ''TypeError'')\<rparr>
      | Some recordIds \<Rightarrow>
          (let req = \<lparr>gs_tableId = tableId (feishuConfig state),
                       gs_recordIds = recordIds,
                       gs_segmentIndex = k,
                       gs_concurrency = videoConcurrency (settings state)\<rparr>;
               called = started\<lparr>fan_requests := fan_requests started @ [req]\<rparr>
           in case generateSegments req of
                Inr data \<Rightarrow>
                  called\<lparr>totalSuccess := totalSuccess called + or_zero (success_count data),
                         totalFailed := totalFailed called + or_zero (failed_count data)\<rparr>
              | Inl err \<Rightarrow>
                  called\<lparr>totalFailed := totalFailed called + length recordIds\<rparr>))"

fun fan_loop ::
  "(GenerateSegmentsParams \<Rightarrow> thrown + batch_counts) \<Rightarrow> PageState \<Rightarrow> segment_groups
     \<Rightarrow> nat list \<Rightarrow> fanout \<Rightarrow> fanout" where
  "fan_loop generateSegments state groups [] acc = acc"
| "fan_loop generateSegments state groups (k # rest) acc =
     (let acc' = fan_step generateSegments state groups k acc in
      if fan_thrown acc' \<noteq> None then acc'
      else fan_loop generateSegments state groups rest acc')"

record confirm_result =
  success :: bool
  successCount :: nat
  failedCount :: nat
  error :: "string option"

record confirm_run =
  confirm_result :: confirm_result
  save_requests :: "(string \<times> BatchSavePromptsItem list) list"
  segment_requests :: "GenerateSegmentsParams list"
  confirm_dispatched :: "PageAction list"

definition caught :: "batch_edit list \<Rightarrow> thrown \<Rightarrow> confirm_result" where
  "caught edits err =
     \<lparr>success = False, successCount = 0, failedCount = length edits,
      error = Some (message_of err advance_failed)\<rparr>"

definition handleBatchEditConfirm ::
  "(string \<Rightarrow> BatchSavePromptsItem list \<Rightarrow> thrown + batch_counts)
     \<Rightarrow> (GenerateSegmentsParams \<Rightarrow> thrown + batch_counts)
     \<Rightarrow> PageState \<Rightarrow> batch_edit list \<Rightarrow> confirm_run" where
  "handleBatchEditConfirm batchSavePrompts generateSegments state edits =
     (let modifiedEdits = filter isModified edits;
          items = map save_item_of modifiedEdits;
          saves = (if length modifiedEdits > 0
                   then [(tableId (feishuConfig state), items)] else []);
          saved = (if length modifiedEdits > 0
                   then batchSavePrompts (tableId (feishuConfig state)) items
                   else Inr \<lparr>success_count = 0, failed_count = 0\<rparr>)
      in case saved of
           Inl err \<Rightarrow>
             \<lparr>confirm_result = caught edits err, save_requests = saves,
              segment_requests = [], confirm_dispatched = []\<rparr>
         | Inr saveData \<Rightarrow>
             (let groups = group_edits edits [];
                  fan = fan_loop generateSegments state groups (segmentIndices groups)
                          \<lparr>totalSuccess = 0, totalFailed = 0, fan_requests = [],
                           fan_dispatched = [], fan_thrown = None\<rparr>
              in case fan_thrown fan of
                   Some err \<Rightarrow>
                     \<lparr>confirm_result = caught edits err, save_requests = saves,
                      segment_requests = fan_requests fan,
                      confirm_dispatched = fan_dispatched fan\<rparr>
                 | None \<Rightarrow>
                     \<lparr>confirm_result =
                        \<lparr>success = (totalFailed fan = 0),
                         successCount = totalSuccess fan,
                         failedCount = totalFailed fan,
                         error = None\<rparr>,
                      save_requests = saves,
                      segment_requests = fan_requests fan,
                      confirm_dispatched =
                        fan_dispatched fan
                        @ [GENERATE_SEGMENT_SUCCESS (totalSuccess fan) (totalFailed fan)]\<rparr>))"

section \<open>Cascade redo (spec section 4.5, Archive Manager)\<close>

text \<open>
  Modelled from the spec: the data of section 3 (SegmentResult, SegmentSpec,
  ProductionUnit, ArchiveEntry, Lock), on which the backend operation works. Of the
  cascade redo the sources hold the HTTP client \<^verbatim>\<open>cascadeRedo\<close>, which posts the request to
  \<^verbatim>\<open>/api/batch/cascade-redo\<close> and throws on a response that is not ok, and the page handler
  \<^verbatim>\<open>handleCascadeRedo\<close>, which reports the number of cleared segments and backups; the
  operation itself runs in the backend and is absent from the sources.
\<close>

datatype result_status = SegPending | SegGenerating | SegCompleted | SegFailed

record SegmentResult =
  sr_index :: nat
  sr_status :: result_status
  artifactRef :: "string option"
  firstFrameRef :: "string option"
  lastFrameRef :: "string option"
  sr_updatedAt :: nat

record SegmentSpec =
  spec_index :: nat
  spec_content :: string
  targetDuration :: nat

datatype unit_status =
    UnitPending
  | ScriptGenerating
  | ScriptReady
  | GeneratingSegmentAt nat
  | AllSegmentsReady
  | Assembling
  | UnitCompleted
  | UnitFailed
  | InputMissing

record ProductionUnit =
  unit_id :: string
  externalRef :: string
  openingImageRef :: "string option"
  totalSegments :: nat
  unit_status :: unit_status
  unit_errorMessage :: "string option"
  createdAt :: nat
  unit_updatedAt :: nat
  segmentSpecs :: "SegmentSpec list"
  segmentResults :: "SegmentResult list"

record ArchiveEntry =
  ae_unitId :: string
  ae_segmentIndex :: nat
  ae_snapshot :: SegmentResult
  archivedAt :: nat

record Lock =
  lock_unitId :: string
  operation :: string
  acquiredAt :: nat
  expiresAt :: nat

text \<open>
  Modelled from the spec: what the operation reads and writes (the unit, its archive
  entries, its lock), its errors (section 7) and its result (section 4.5), absent from the
  sources.
\<close>

record unit_store =
  store_unit :: ProductionUnit
  store_archive :: "ArchiveEntry list"
  store_lock :: "Lock option"

datatype redo_error = ConflictError string | PersistenceError

record redo_result =
  archived :: "ArchiveEntry list"
  cleared :: "nat list"

text \<open>
  Modelled from the spec: the lock check of \<^verbatim>\<open>tryAcquire\<close> with \<^verbatim>\<open>timeout=0\<close> (section 4.2),
  absent from the sources. A lock is live until it expires; an expired one is reclaimed.
\<close>

definition live_lock :: "nat \<Rightarrow> Lock option \<Rightarrow> Lock option" where
  "live_lock now l =
     (case l of
        None \<Rightarrow> None
      | Some held \<Rightarrow> if now < expiresAt held then Some held else None)"

text \<open>
  Modelled from the spec: the derivation rule of the unit status (section 4.1), absent from
  the sources: \<open>AllSegmentsReady\<close> when the completed results are \<open>totalSegments\<close> many,
  otherwise \<open>ScriptReady\<close>.
\<close>

definition derive_status :: "ProductionUnit \<Rightarrow> unit_status" where
  "derive_status u =
     (if length (filter (\<lambda>r. sr_status r = SegCompleted) (segmentResults u)) = totalSegments u
      then AllSegmentsReady else ScriptReady)"

text \<open>
  Modelled from the spec: the archive writes of the cascade redo (section 4.5), absent from
  the sources. \<open>write_fails\<close> is the fault injection of section 8: the entries whose write
  fails. The entries are written in order; the first failure ends the writes.
\<close>

fun write_archive ::
  "(ArchiveEntry \<Rightarrow> bool) \<Rightarrow> ArchiveEntry list \<Rightarrow> ArchiveEntry list
     \<Rightarrow> ArchiveEntry list option" where
  "write_archive write_fails [] arch = Some arch"
| "write_archive write_fails (e # es) arch =
     (if write_fails e then None else write_archive write_fails es (arch @ [e]))"

text \<open>
  Modelled from the spec: the results a redo concerns, absent from the sources: "every
  segment index \<open>\<ge> fromIndex\<close> currently completed" (section 4.5).
\<close>

definition affected :: "nat \<Rightarrow> SegmentResult \<Rightarrow> bool" where
  "affected fromIndex r = (fromIndex \<le> sr_index r \<and> sr_status r = SegCompleted)"

text \<open>
  Modelled from the spec: the archive entry of a result, absent from the sources: a
  snapshot of the result at the time of archival (section 3).
\<close>

definition snapshot_of :: "string \<Rightarrow> nat \<Rightarrow> SegmentResult \<Rightarrow> ArchiveEntry" where
  "snapshot_of uid now r =
     \<lparr>ae_unitId = uid, ae_segmentIndex = sr_index r, ae_snapshot = r, archivedAt = now\<rparr>"

text \<open>
  Modelled from the spec: clearing a result "to pending (removing artifact references)"
  (section 4.5), absent from the sources.
\<close>

definition clear_result :: "nat \<Rightarrow> SegmentResult \<Rightarrow> SegmentResult" where
  "clear_result now r =
     r\<lparr>sr_status := SegPending, artifactRef := None, firstFrameRef := None,
       lastFrameRef := None, sr_updatedAt := now\<rparr>"

text \<open>
  Modelled from the spec: clearing "the corresponding SegmentSpec content for the same
  range" (section 4.5), absent from the sources.
\<close>

definition clear_spec :: "nat \<Rightarrow> SegmentSpec \<Rightarrow> SegmentSpec" where
  "clear_spec fromIndex s = (if fromIndex \<le> spec_index s then s\<lparr>spec_content := []\<rparr> else s)"

text \<open>
  Modelled from the spec: \<^verbatim>\<open>cascadeRedo(unitId, fromIndex, alsoResetScript)\<close> of section 4.5,
  the backend operation behind \<^verbatim>\<open>/api/batch/cascade-redo\<close>, absent from the sources. It
  acquires the lock, writes an archive entry for every completed result from \<open>fromIndex\<close>
  on, aborts with all state unchanged if a write fails, and otherwise clears those results
  to pending, clears the script content of the range if asked, recomputes the status,
  releases the lock and returns the archived entries and the cleared indices.
\<close>

definition cascadeRedo ::
  "(ArchiveEntry \<Rightarrow> bool) \<Rightarrow> nat \<Rightarrow> unit_store \<Rightarrow> nat \<Rightarrow> bool
     \<Rightarrow> (redo_error + redo_result) \<times> unit_store" where
  "cascadeRedo write_fails now store fromIndex alsoResetScript =
     (case live_lock now (store_lock store) of
        Some held \<Rightarrow> (Inl (ConflictError (operation held)), store)
      | None \<Rightarrow>
          (let u = store_unit store;
               targets = filter (affected fromIndex) (segmentResults u);
               entries = map (snapshot_of (unit_id u) now) targets
           in case write_archive write_fails entries (store_archive store) of
                None \<Rightarrow> (Inl PersistenceError, store\<lparr>store_lock := None\<rparr>)
              | Some arch \<Rightarrow>
                  (let results' = map (\<lambda>r. if affected fromIndex r then clear_result now r else r)
                                      (segmentResults u);
                       specs' = (if alsoResetScript
                                 then map (clear_spec fromIndex) (segmentSpecs u)
                                 else segmentSpecs u);
                       u' = u\<lparr>segmentResults := results', segmentSpecs := specs',
                              unit_updatedAt := now\<rparr>
                   in (Inr \<lparr>archived = entries, cleared = map sr_index targets\<rparr>,
                       \<lparr>store_unit = u'\<lparr>unit_status := derive_status u'\<rparr>,
                        store_archive = arch,
                        store_lock = None\<rparr>))))"

section \<open>The selection rule in the specification's words\<close>

text \<open>
  A segment is incomplete when its status, \<^verbatim>\<open>pending\<close> if it has none, is not
  \<^verbatim>\<open>completed\<close>. The selected index is the first incomplete one, provided its
  dependency holds: the opening image for index 0, a completed predecessor otherwise.
\<close>

definition incomplete :: "seg_view \<Rightarrow> bool" where
  "incomplete v = (js_or (sv_status v) (Str ''pending'') \<noteq> Str ''completed'')"

definition first_incomplete :: "seg_view list \<Rightarrow> nat option" where
  "first_incomplete segs =
     (let n = length (takeWhile (\<lambda>v. \<not> incomplete v) segs)
      in if n < length segs then Some n else None)"

definition dependency_holds :: "bool \<Rightarrow> seg_view list \<Rightarrow> nat \<Rightarrow> bool" where
  "dependency_holds opening segs i =
     (if i = 0 then opening else i - 1 < length segs \<and> \<not> incomplete (segs ! (i - 1)))"

definition select_next :: "bool \<Rightarrow> seg_view list \<Rightarrow> nat option" where
  "select_next opening segs =
     (case first_incomplete segs of
        None \<Rightarrow> None
      | Some i \<Rightarrow> if dependency_holds opening segs i then Some i else None)"

text \<open>The tasks a batch helper works on: all of them when nothing is selected.\<close>

definition selected_tasks :: "BatchTask list \<Rightarrow> string list \<Rightarrow> BatchTask list" where
  "selected_tasks tasks sel = (if sel = [] then tasks else filter (\<lambda>t. task_id t \<in> set sel) tasks)"

text \<open>
  What a stage handler that works on the tasks \<open>ts\<close> sends: nothing when none of them
  passes the filter of the stage, otherwise one request with the ids of those that do, in
  the order of the tasks.
\<close>

definition storyboard_requests_on ::
  "PageState \<Rightarrow> BatchTask list \<Rightarrow> GenerateStoryboardsParams list" where
  "storyboard_requests_on state ts =
     (if filterTasksForStoryboard ts = [] then []
      else [\<lparr>gsb_tableId = tableId (feishuConfig state),
             gsb_recordIds = map task_id (filterTasksForStoryboard ts),
             gsb_concurrency = storyboardConcurrency (settings state)\<rparr>])"

definition merge_requests_on :: "PageState \<Rightarrow> BatchTask list \<Rightarrow> MergeVideosParams list" where
  "merge_requests_on state ts =
     (if filterTasksForMerge ts = [] then []
      else [\<lparr>mv_tableId = tableId (feishuConfig state),
             mv_recordIds = map task_id (filterTasksForMerge ts)\<rparr>])"

text \<open>
  The infos of the tasks that have a pending segment, in the order of the tasks, each with
  its position in the list.
\<close>

definition infos_of :: "json_parser \<Rightarrow> nat \<Rightarrow> BatchTask list \<Rightarrow> PendingSegmentInfo list" where
  "infos_of json_parse idx ts =
     concat (map (\<lambda>(i, t). case pending_of_task json_parse t i of
                               Inr (Some info) \<Rightarrow> [info] | _ \<Rightarrow> [])
                 (List.enumerate idx ts))"

text \<open>\<^verbatim>\<open>groups[k]\<close>, empty for a missing key.\<close>

definition ids_at :: "segment_groups \<Rightarrow> nat \<Rightarrow> string list" where
  "ids_at groups k = (case map_of groups k of None \<Rightarrow> [] | Some ids \<Rightarrow> ids)"


text \<open>The actions that neither start an operation, nor report a failure, nor clear the error.\<close>

definition keeps_error :: "PageAction \<Rightarrow> bool" where
  "keeps_error a = (\<not> is_start a \<and> a \<noteq> CLEAR_ERROR \<and> failure_payload a = None)"

section \<open>The initial state (pages/BatchPage.types.ts)\<close>

definition DEFAULT_SETTINGS :: BatchSettings where
  "DEFAULT_SETTINGS =
     \<lparr>storyboardConcurrency = 10, videoConcurrency = 5, writebackBatchSize = 500\<rparr>"

definition DEFAULT_FEISHU_CONFIG :: FeishuConfig where
  "DEFAULT_FEISHU_CONFIG =
     \<lparr>appId = [], appSecret = [], appToken = Some [], tenantAccessToken = None,
      tableId = [], connected = False, tableName = None, recordCount = None,
      driveFolderToken = Some ''LO1jf6cT7lOEuXdHYXScSV8Vnth''\<rparr>"

definition INITIAL_STATE :: PageState where
  "INITIAL_STATE =
     \<lparr>page_status = Idle, errorMessage = None, feishuConfig = DEFAULT_FEISHU_CONFIG,
      page_tasks = [], selectedTaskId = None, selectedRecordIds = [],
      statusFilter = ''all'', showDetail = True, sidebarCollapsed = False,
      showBatchEditModal = False, queueOpen = False, currentSegmentIndex = 0,
      settings = DEFAULT_SETTINGS\<rparr>"

section \<open>Sample data\<close>

text \<open>
  A parser that agrees with \<^verbatim>\<open>JSON.parse\<close> on the two texts of the samples, and tasks
  built on them: one in Scenario A, one in flight, one ready to merge, one new, one without
  an opening image, one whose storyboard holds a \<^verbatim>\<open>null\<close> entry.
\<close>

definition sample_parse :: json_parser where
  "sample_parse s =
     (if s = ''[null]'' then Some (Arr [Null])
      else if s = ''[{},{},{}]'' then Some (Arr [Obj [], Obj [], Obj []])
      else None)"

definition blank_task :: BatchTask where
  "blank_task =
     \<lparr>task_id = ''rec0'', actorId = None, projectId = None, openingImageUrl = None,
      sceneDescription = None, templateId = None, segmentCount = 0, storyboardJson = None,
      segments = [], finalVideoUrl = None, task_status = ''pending'',
      task_errorMessage = None, progress = [], task_updatedAt = None, publishDate = None\<rparr>"

definition done_segment :: "string \<Rightarrow> BatchSegment" where
  "done_segment frame =
     \<lparr>seg_videoUrl = Some ''video.mp4'', seg_lastFrameUrl = Some frame,
      seg_status = ''completed''\<rparr>"

definition pending_segment :: BatchSegment where
  "pending_segment = \<lparr>seg_videoUrl = None, seg_lastFrameUrl = None, seg_status = ''pending''\<rparr>"

definition scenario_task :: BatchTask where
  "scenario_task =
     blank_task\<lparr>task_id := ''recA'', openingImageUrl := Some ''open.png'', segmentCount := 3,
                storyboardJson := Some ''[{},{},{}]'',
                segments := [done_segment ''last0.png'', done_segment ''last1.png'',
                             pending_segment],
                task_status := ''storyboard_ready''\<rparr>"

definition flight_task :: BatchTask where
  "flight_task = scenario_task\<lparr>task_id := ''recB'', task_status := ''generating_segment_2''\<rparr>"

definition null_entry_task :: BatchTask where
  "null_entry_task =
     blank_task\<lparr>task_id := ''recN'', openingImageUrl := Some ''open.png'',
                storyboardJson := Some ''[null]'', task_status := ''storyboard_ready''\<rparr>"

definition fresh_task :: BatchTask where
  "fresh_task = blank_task\<lparr>task_id := ''recF'', openingImageUrl := Some ''open.png''\<rparr>"

definition ready_task :: BatchTask where
  "ready_task = scenario_task\<lparr>task_id := ''recR'', task_status := ''all_segments_ready''\<rparr>"

text \<open>The info of the task of Scenario A, at position \<open>idx\<close> of a batch.\<close>

definition scenario_info :: "nat \<Rightarrow> PendingSegmentInfo" where
  "scenario_info idx =
     \<lparr>taskId = ''recA'', taskIndex = idx, info_projectId = [], segmentIndex = 2,
      segment =
        Some \<lparr>sf_id = Str ''segment-2'', sf_segmentIndex = 2, sf_segmentType = Str ''eating'',
              sf_crucial = Str [], sf_action = Str [], sf_sound = Str [],
              sf_negative_constraint = Str [], sf_prompt = Str [],
              sf_status = Str ''pending'', sf_crucial_zh = Str [], sf_action_zh = Str [],
              sf_sound_zh = Str [], sf_negative_constraint_zh = Str []\<rparr>,
      inputFrameUrl = Str ''last1.png'', inputFrameLabel = LastFrameOf 1\<rparr>"

definition sample_state :: PageState where
  "sample_state =
     INITIAL_STATE
       \<lparr>feishuConfig := DEFAULT_FEISHU_CONFIG\<lparr>tableId := ''tbl1'', connected := True\<rparr>,
        page_tasks := [blank_task, fresh_task, scenario_task, ready_task, flight_task]\<rparr>"

text \<open>The sample state with two of its five tasks selected.\<close>

definition selected_state :: PageState where
  "selected_state = sample_state\<lparr>selectedRecordIds := [''recA'', ''recR'']\<rparr>"

text \<open>Backends that accept every record.\<close>

definition all_succeed :: "string list \<Rightarrow> thrown + batch_counts" where
  "all_succeed ids = Inr \<lparr>success_count = length ids, failed_count = 0\<rparr>"

definition storyboards_succeed :: "GenerateStoryboardsParams \<Rightarrow> thrown + batch_counts" where
  "storyboards_succeed req = all_succeed (gsb_recordIds req)"

definition merge_succeeds :: "MergeVideosParams \<Rightarrow> thrown + batch_counts" where
  "merge_succeeds req = all_succeed (mv_recordIds req)"

section \<open>The fan-out of handleBatchEditConfirm, group by group\<close>

text \<open>
  The groups of a batch of edits: the segment indices that occur, in ascending order; the
  record ids of a group in the order of the edits; the request sent for a group; and what
  one group adds to the two counters (all of its records count as failed when the call
  throws).
\<close>

definition group_keys :: "batch_edit list \<Rightarrow> nat list" where
  "group_keys edits = sort (remdups (map edit_segmentIndex edits))"

definition group_ids :: "batch_edit list \<Rightarrow> nat \<Rightarrow> string list" where
  "group_ids edits k = map edit_taskId (filter (\<lambda>e. edit_segmentIndex e = k) edits)"

definition request_for :: "PageState \<Rightarrow> batch_edit list \<Rightarrow> nat \<Rightarrow> GenerateSegmentsParams" where
  "request_for state edits k =
     \<lparr>gs_tableId = tableId (feishuConfig state),
      gs_recordIds = group_ids edits k,
      gs_segmentIndex = k,
      gs_concurrency = videoConcurrency (settings state)\<rparr>"

definition group_success ::
  "(GenerateSegmentsParams \<Rightarrow> thrown + batch_counts) \<Rightarrow> GenerateSegmentsParams \<Rightarrow> nat" where
  "group_success generateSegments req =
     (case generateSegments req of Inl err \<Rightarrow> 0 | Inr data \<Rightarrow> success_count data)"

definition group_failed ::
  "(GenerateSegmentsParams \<Rightarrow> thrown + batch_counts) \<Rightarrow> GenerateSegmentsParams \<Rightarrow> nat" where
  "group_failed generateSegments req =
     (case generateSegments req of
        Inl err \<Rightarrow> length (gs_recordIds req)
      | Inr data \<Rightarrow> failed_count data)"

text \<open>Step 1 throws: some edit is modified and the call that saves the prompts throws.\<close>

definition save_throws ::
  "(string \<Rightarrow> BatchSavePromptsItem list \<Rightarrow> thrown + batch_counts) \<Rightarrow> PageState
     \<Rightarrow> batch_edit list \<Rightarrow> bool" where
  "save_throws batchSavePrompts state edits =
     (filter isModified edits \<noteq> []
      \<and> isl (batchSavePrompts (tableId (feishuConfig state))
                (map save_item_of (filter isModified edits))))"

text \<open>Sample edits and backends.\<close>

definition sample_fields :: prompt_fields where
  "sample_fields =
     \<lparr>crucial = ''a cat'', action = ''eats'', sound = ''crunch'', negative_constraint = [],
      crucial_zh = None, action_zh = None, sound_zh = None, negative_constraint_zh = None\<rparr>"

definition sample_edit :: "string \<Rightarrow> nat \<Rightarrow> bool \<Rightarrow> batch_edit" where
  "sample_edit rid k modified =
     \<lparr>edit_taskId = rid, edit_projectId = ''proj'', edit_segmentIndex = k,
      edit_fields = sample_fields, isModified = modified\<rparr>"

definition sample_edits :: "batch_edit list" where
  "sample_edits =
     [sample_edit ''r1'' 2 False, sample_edit ''r2'' 0 False, sample_edit ''r3'' 2 False]"

definition save_fails :: "string \<Rightarrow> BatchSavePromptsItem list \<Rightarrow> thrown + batch_counts" where
  "save_fails tid items = Inl (Error ''save failed'')"

definition save_succeeds :: "string \<Rightarrow> BatchSavePromptsItem list \<Rightarrow> thrown + batch_counts" where
  "save_succeeds tid items = all_succeed (map record_id items)"

definition segments_succeed :: "GenerateSegmentsParams \<Rightarrow> thrown + batch_counts" where
  "segments_succeed req = all_succeed (gs_recordIds req)"

definition segment_0_fails :: "GenerateSegmentsParams \<Rightarrow> thrown + batch_counts" where
  "segment_0_fails req =
     (if gs_segmentIndex req = 0 then Inl (Error ''provider down'')
      else all_succeed (gs_recordIds req))"

section \<open>The footprint of a cascade redo\<close>

text \<open>
  Modelled from the spec: the footprint of \<^verbatim>\<open>cascadeRedo\<close> (sections 4.5 and 8), absent from
  the sources like the operation: the results a redo from \<open>fromIndex\<close> archives and
  clears, the entries it writes for them, when it aborts (the lock is held, or the write of
  one of the entries fails), and the results it leaves.
\<close>

definition redo_targets :: "unit_store \<Rightarrow> nat \<Rightarrow> SegmentResult list" where
  "redo_targets store fromIndex = filter (affected fromIndex) (segmentResults (store_unit store))"

definition redo_entries :: "nat \<Rightarrow> unit_store \<Rightarrow> nat \<Rightarrow> ArchiveEntry list" where
  "redo_entries now store fromIndex =
     map (snapshot_of (unit_id (store_unit store)) now) (redo_targets store fromIndex)"

definition redo_aborts :: "(ArchiveEntry \<Rightarrow> bool) \<Rightarrow> nat \<Rightarrow> unit_store \<Rightarrow> nat \<Rightarrow> bool" where
  "redo_aborts write_fails now store fromIndex =
     (live_lock now (store_lock store) \<noteq> None
      \<or> list_ex write_fails (redo_entries now store fromIndex))"

definition cleared_results :: "nat \<Rightarrow> nat \<Rightarrow> SegmentResult list \<Rightarrow> SegmentResult list" where
  "cleared_results now fromIndex rs =
     map (\<lambda>r. if affected fromIndex r then clear_result now r else r) rs"

text \<open>A unit with three completed segments (Scenario C), and two fault injections.\<close>

definition completed_result :: "nat \<Rightarrow> SegmentResult" where
  "completed_result i =
     \<lparr>sr_index = i, sr_status = SegCompleted, artifactRef = Some ''video.mp4'',
      firstFrameRef = Some ''first.png'', lastFrameRef = Some ''last.png'', sr_updatedAt = 7\<rparr>"

definition pending_result :: "nat \<Rightarrow> nat \<Rightarrow> SegmentResult" where
  "pending_result i stamp =
     \<lparr>sr_index = i, sr_status = SegPending, artifactRef = None, firstFrameRef = None,
      lastFrameRef = None, sr_updatedAt = stamp\<rparr>"

definition sample_unit :: ProductionUnit where
  "sample_unit =
     \<lparr>unit_id = ''X'', externalRef = ''recX'', openingImageRef = Some ''open.png'',
      totalSegments = 3, unit_status = AllSegmentsReady, unit_errorMessage = None,
      createdAt = 1, unit_updatedAt = 7,
      segmentSpecs = [\<lparr>spec_index = 0, spec_content = ''intro'', targetDuration = 6\<rparr>,
                      \<lparr>spec_index = 1, spec_content = ''eating'', targetDuration = 6\<rparr>,
                      \<lparr>spec_index = 2, spec_content = ''outro'', targetDuration = 6\<rparr>],
      segmentResults = [completed_result 0, completed_result 1, completed_result 2]\<rparr>"

definition sample_store :: unit_store where
  "sample_store = \<lparr>store_unit = sample_unit, store_archive = [], store_lock = None\<rparr>"

definition no_fault :: "ArchiveEntry \<Rightarrow> bool" where
  "no_fault e = False"

definition fault_at_2 :: "ArchiveEntry \<Rightarrow> bool" where
  "fault_at_2 e = (ae_segmentIndex e = 2)"

section \<open>Parsing is total\<close>

lemma parse_try_body_embedded:
  "(case parse_try_body v of Inl e \<Rightarrow> [] | Inr xs \<Rightarrow> xs) = embedded_array v"
proof (cases v)
  case (Obj kvs)
  show ?thesis
  proof (cases "map_of kvs ''storyboards''")
    case None
    with Obj show ?thesis
      by (cases "map_of kvs ''segments''")
         (auto simp: parse_try_body_def get_prop_def split: jsval.splits)
  next
    case (Some sb)
    with Obj show ?thesis
      by (cases "map_of kvs ''segments''")
         (auto simp: parse_try_body_def get_prop_def split: jsval.splits)
  qed
qed (simp_all add: parse_try_body_def get_prop_def)

text \<open>
  C10. For every input (absent, empty, malformed or any JSON value)
  \<open>parseStoryboardSegments\<close> returns a list, never an error: the embedded array of an
  object whose \<^verbatim>\<open>storyboards\<close> or \<^verbatim>\<open>segments\<close> is an array, a bare array itself, and the
  empty list for every other input.
\<close>

theorem parseStoryboardSegments_total:
  "parseStoryboardSegments json_parse sbJson =
     (case parse_outcome json_parse sbJson of
        None \<Rightarrow> []
      | Some parsed \<Rightarrow> embedded_array parsed)"
proof (cases sbJson)
  case None
  then show ?thesis
    by (simp add: parseStoryboardSegments_def parse_outcome_def)
next
  case (Some s)
  then show ?thesis
    using parse_try_body_embedded
    by (simp add: parseStoryboardSegments_def parse_outcome_def split: option.splits)
qed

section \<open>Next-segment selection\<close>

text \<open>The loop finds the first incomplete segment and checks its dependency.\<close>

lemma first_incomplete_at:
  assumes "i < length segs" "incomplete (segs ! i)" "\<forall>j<i. \<not> incomplete (segs ! j)"
  shows "first_incomplete segs = Some i"
proof -
  have "takeWhile (\<lambda>v. \<not> incomplete v) segs = take i segs"
    using assms by (intro takeWhile_eq_take_P_nth) auto
  with assms(1) show ?thesis by (simp add: first_incomplete_def)
qed

lemma first_incomplete_none:
  assumes "\<forall>j<length segs. \<not> incomplete (segs ! j)"
  shows "first_incomplete segs = None"
proof -
  have tw: "takeWhile (\<lambda>v. \<not> incomplete v) segs = segs"
    using assms by (auto simp: takeWhile_eq_all_conv in_set_conv_nth)
  show ?thesis unfolding first_incomplete_def tw by simp
qed

lemma first_incomplete_SomeD:
  assumes "first_incomplete segs = Some i"
  shows "i < length segs" "incomplete (segs ! i)" "\<forall>j<i. \<not> incomplete (segs ! j)"
proof -
  let ?P = "\<lambda>v. \<not> incomplete v"
  from assms have i: "i = length (takeWhile ?P segs)" "i < length segs"
    by (auto simp: first_incomplete_def Let_def split: if_splits)
  then show "i < length segs" by simp
  from i nth_length_takeWhile [of ?P segs] show "incomplete (segs ! i)" by simp
  show "\<forall>j<i. \<not> incomplete (segs ! j)"
  proof (intro allI impI)
    fix j assume "j < i"
    with i have "takeWhile ?P segs ! j \<in> set (takeWhile ?P segs)" by simp
    moreover from \<open>j < i\<close> i have "takeWhile ?P segs ! j = segs ! j"
      by (simp add: takeWhile_nth)
    ultimately show "\<not> incomplete (segs ! j)" by (auto dest: set_takeWhileD)
  qed
qed

lemma next_segment_loop_from:
  "i \<le> length segs \<Longrightarrow> \<forall>j<i. \<not> incomplete (segs ! j) \<Longrightarrow>
   next_segment_loop task segs i = select_next (present (openingImageUrl task)) segs"
proof (induction task segs i rule: next_segment_loop.induct)
  case (1 task segs i)
  show ?case
  proof (cases "i < length segs")
    case False
    with "1.prems" have "first_incomplete segs = None"
      by (intro first_incomplete_none) auto
    with False show ?thesis
      by (simp add: next_segment_loop.simps [of task segs i] select_next_def)
  next
    case True
    show ?thesis
    proof (cases "incomplete (segs ! i)")
      case True
      with \<open>i < length segs\<close> "1.prems" have fi: "first_incomplete segs = Some i"
        by (intro first_incomplete_at) auto
      show ?thesis
      proof (cases "i = 0")
        case True
        with \<open>incomplete (segs ! i)\<close> \<open>i < length segs\<close> fi show ?thesis
          by (simp add: next_segment_loop.simps [of task segs 0] select_next_def
                dependency_holds_def incomplete_def)
      next
        case False
        with "1.prems" \<open>i < length segs\<close> have prev: "\<not> incomplete (segs ! (i - 1))" "i - 1 < length segs"
          by auto
        with False \<open>incomplete (segs ! i)\<close> \<open>i < length segs\<close> fi show ?thesis
          by (simp add: next_segment_loop.simps [of task segs i] select_next_def
                dependency_holds_def incomplete_def status_at_def nth_opt_def)
      qed
    next
      case False
      have "\<forall>j<i + 1. \<not> incomplete (segs ! j)"
        using False "1.prems" by (auto simp: less_Suc_eq)
      with "1.IH" True False have "next_segment_loop task segs (i + 1)
          = select_next (present (openingImageUrl task)) segs"
        by (simp add: incomplete_def)
      with True False show ?thesis
        by (simp add: next_segment_loop.simps [of task segs i] incomplete_def)
    qed
  qed
qed

lemma next_segment_loop_select:
  "next_segment_loop task segs 0 = select_next (present (openingImageUrl task)) segs"
  by (rule next_segment_loop_from) simp_all


lemma select_next_SomeD:
  assumes "select_next opening segs = Some i"
  shows "first_incomplete segs = Some i" "dependency_holds opening segs i"
  using assms by (auto simp: select_next_def split: option.splits if_splits)


text \<open>A task in flight is skipped before its segments are looked at.\<close>

lemma getNext_in_flight:
  "in_flight (task_status task) \<Longrightarrow> getNextSegmentIndex json_parse task = Inr None"
  by (simp add: getNextSegmentIndex_def)


lemma map_throwing_total:
  "list_all (\<lambda>v. \<not> nullish v) entries \<Longrightarrow> \<exists>segs. map_throwing view_of_entry entries = Inr segs"
  by (induction entries) (auto simp: view_of_entry_def)

lemma local_segments_readable:
  "segments t \<noteq> [] \<or> list_all (\<lambda>v. \<not> nullish v)
                          (parseStoryboardSegments json_parse (storyboardJson t)) \<Longrightarrow>
   \<exists>segs. local_segments json_parse t = Inr segs"
  using map_throwing_total by (auto simp: local_segments_def)


lemma getNext_SomeD:
  assumes "getNextSegmentIndex json_parse t = Inr (Some i)"
  shows "\<exists>segs. local_segments json_parse t = Inr segs
           \<and> select_next (present (openingImageUrl t)) segs = Some i"
  using assms
  by (auto simp: getNextSegmentIndex_def next_segment_loop_select
           split: if_splits sum.splits)

lemma getNext_predecessor_completed:
  assumes "getNextSegmentIndex json_parse t = Inr (Some i)" "0 < i"
  shows "\<exists>segs. local_segments json_parse t = Inr segs \<and> i < length segs
           \<and> incomplete (segs ! i) \<and> \<not> incomplete (segs ! (i - 1))"
proof -
  from getNext_SomeD [OF assms(1)] obtain segs where
    s: "local_segments json_parse t = Inr segs"
       "select_next (present (openingImageUrl t)) segs = Some i" by blast
  note fi = first_incomplete_SomeD [OF select_next_SomeD(1) [OF s(2)]]
  from fi(3) assms(2) have "\<not> incomplete (segs ! (i - 1))" by simp
  with s(1) fi(1,2) show ?thesis by blast
qed

text \<open>
  C1. For every task that has a storyboard and is neither in flight nor completed, the
  selected index is the first incomplete one whose dependency holds, and none otherwise.
  The function does not get that far for the task below: it has a storyboard, an opening
  image and an idle status, \<^verbatim>\<open>task.segments\<close> is empty, and its storyboard \<^verbatim>\<open>[null]\<close> holds one
  entry, which is not completed. Reading \<^verbatim>\<open>seg.status\<close> of that entry throws a TypeError,
  where the rule selects index 0; \<open>calculatePendingSegments\<close> guards the same entry with
  \<^verbatim>\<open>segmentData ? ... : null\<close> and \<^verbatim>\<open>?.\<close>, and throws here all the same, through this call.
\<close>

theorem getNextSegmentIndex_null_entry:
  "present (storyboardJson null_entry_task)
   \<and> \<not> in_flight (task_status null_entry_task)
   \<and> task_status null_entry_task \<noteq> ''completed''
   \<and> present (openingImageUrl null_entry_task)
   \<and> segments null_entry_task = []
   \<and> parseStoryboardSegments sample_parse (storyboardJson null_entry_task) = [Null]
   \<and> getNextSegmentIndex sample_parse null_entry_task = Inl TypeError
   \<and> calculatePendingSegments sample_parse [null_entry_task] [] = Inl TypeError"
  by code_simp

section \<open>The pending segments and the groups of a batch\<close>

lemma tasksToProcess_subset: "set (tasksToProcess tasks sel) \<subseteq> set tasks"
  by (auto simp: tasksToProcess_def)

lemma tasksToProcess_selected: "tasksToProcess tasks sel = selected_tasks tasks sel"
  by (simp add: tasksToProcess_def selected_tasks_def)

lemma selected_tasks_Nil: "selected_tasks tasks [] = tasks"
  by (simp add: selected_tasks_def)

lemma nth_opt_Some: "nth_opt xs i = Some x \<longleftrightarrow> i < length xs \<and> xs ! i = x"
  by (auto simp: nth_opt_def)

lemma pending_loop_infos:
  "pending_loop json_parse ts idx acc = Inr infos \<Longrightarrow> infos = acc @ infos_of json_parse idx ts"
proof (induction ts arbitrary: idx acc)
  case Nil
  then show ?case by (simp add: infos_of_def)
next
  case (Cons t ts)
  show ?case
  proof (cases "pending_of_task json_parse t idx")
    case (Inl e)
    with Cons.prems show ?thesis by simp
  next
    case (Inr r)
    show ?thesis
    proof (cases r)
      case None
      with Inr Cons.prems have "pending_loop json_parse ts (Suc idx) acc = Inr infos" by simp
      from Cons.IH [OF this] Inr None show ?thesis by (simp add: infos_of_def)
    next
      case (Some info)
      with Inr Cons.prems have "pending_loop json_parse ts (Suc idx) (acc @ [info]) = Inr infos"
        by simp
      from Cons.IH [OF this] Inr Some show ?thesis by (simp add: infos_of_def)
    qed
  qed
qed

lemma infos_of_origin:
  "info \<in> set (infos_of json_parse idx ts) \<Longrightarrow>
   \<exists>k<length ts. pending_of_task json_parse (ts ! k) (idx + k) = Inr (Some info)"
proof (induction ts arbitrary: idx)
  case Nil
  then show ?case by (simp add: infos_of_def)
next
  case (Cons t ts)
  from Cons.prems have
    "info \<in> set (case pending_of_task json_parse t idx of Inr (Some i) \<Rightarrow> [i] | _ \<Rightarrow> [])
     \<or> info \<in> set (infos_of json_parse (Suc idx) ts)"
    by (auto simp: infos_of_def)
  then show ?case
  proof
    assume "info \<in> set (case pending_of_task json_parse t idx of Inr (Some i) \<Rightarrow> [i] | _ \<Rightarrow> [])"
    then have "pending_of_task json_parse t idx = Inr (Some info)"
      by (auto split: sum.splits option.splits)
    then show ?thesis by (intro exI [of _ 0]) simp
  next
    assume "info \<in> set (infos_of json_parse (Suc idx) ts)"
    from Cons.IH [OF this] obtain k where "k < length ts"
      "pending_of_task json_parse (ts ! k) (Suc idx + k) = Inr (Some info)" by blast
    then show ?thesis by (intro exI [of _ "Suc k"]) simp
  qed
qed

lemma pending_of_task_fields:
  assumes "pending_of_task json_parse t i = Inr (Some info)"
  shows "taskId info = task_id t" "taskIndex info = i"
    "getNextSegmentIndex json_parse t = Inr (Some (segmentIndex info))"
    "segmentIndex info < length (parseStoryboardSegments json_parse (storyboardJson t))"
    "inputFrameUrl info
       = fst (input_frame t (parseStoryboardSegments json_parse (storyboardJson t))
               (segmentIndex info))"
  using assms
  by (auto simp: pending_of_task_def Let_def split: sum.splits option.splits if_splits)

lemma calculatePendingSegments_origin:
  assumes "calculatePendingSegments json_parse tasks sel = Inr infos" "info \<in> set infos"
  shows "taskIndex info < length (tasksToProcess tasks sel)
     \<and> pending_of_task json_parse (tasksToProcess tasks sel ! taskIndex info) (taskIndex info)
         = Inr (Some info)"
proof -
  from assms(1) have "infos = infos_of json_parse 0 (tasksToProcess tasks sel)"
    using pending_loop_infos [of json_parse _ 0 "[]" infos]
    by (simp add: calculatePendingSegments_def)
  with assms(2) obtain k where k: "k < length (tasksToProcess tasks sel)"
    "pending_of_task json_parse (tasksToProcess tasks sel ! k) k = Inr (Some info)"
    using infos_of_origin [of info json_parse 0] by auto
  from pending_of_task_fields(2) [OF k(2)] k show ?thesis by simp
qed

lemma pending_of_task_in_flight:
  "in_flight (task_status t) \<Longrightarrow> pending_of_task json_parse t i = Inr None"
  by (simp add: pending_of_task_def getNext_in_flight)

lemma map_of_push_group:
  "map_of (push_group g k v) k' = (if k' = k then Some (ids_at g k @ [v]) else map_of g k')"
proof (cases "map_of g k")
  case None
  then show ?thesis
    by (auto simp: push_group_def ids_at_def map_add_def split: option.splits)
next
  case (Some ids)
  have "map_of (map (\<lambda>(k', ids'). if k' = k then (k', ids' @ [v]) else (k', ids')) g) k'
        = (if k' = k then map_option (\<lambda>ids'. ids' @ [v]) (map_of g k') else map_of g k')"
    by (induction g) auto
  with Some show ?thesis by (simp add: push_group_def ids_at_def)
qed

lemma keys_push_group:
  "map fst (push_group g k v) = (if k \<in> set (map fst g) then map fst g else map fst g @ [k])"
proof (cases "map_of g k")
  case None
  then have "k \<notin> set (map fst g)" by (simp add: map_of_eq_None_iff)
  then show ?thesis unfolding push_group_def None by simp
next
  case (Some ids)
  then have "k \<in> set (map fst g)" by (force dest: map_of_SomeD)
  moreover have "map fst (map (\<lambda>(k', ids'). if k' = k then (k', ids' @ [v]) else (k', ids')) g)
        = map fst g" by (induction g) auto
  ultimately show ?thesis using Some by (simp add: push_group_def)
qed

lemma key_set_push_group: "fst ` set (push_group g k v) = insert k (fst ` set g)"
proof -
  have "set (map fst (push_group g k v)) = insert k (set (map fst g))"
    unfolding keys_push_group by auto
  then show ?thesis by simp
qed

lemma group_loop_ids:
  "group_loop json_parse ts g = Inr g' \<Longrightarrow>
   ids_at g' k = ids_at g k
       @ map task_id (filter (\<lambda>t. getNextSegmentIndex json_parse t = Inr (Some k)) ts)"
proof (induction ts arbitrary: g)
  case Nil
  then show ?case by simp
next
  case (Cons t ts)
  show ?case
  proof (cases "getNextSegmentIndex json_parse t")
    case (Inl e)
    with Cons.prems show ?thesis by simp
  next
    case (Inr r)
    show ?thesis
    proof (cases r)
      case None
      with Inr Cons show ?thesis by simp
    next
      case (Some n)
      with Inr Cons.prems have "group_loop json_parse ts (push_group g n (task_id t)) = Inr g'"
        by simp
      from Cons.IH [OF this] Inr Some show ?thesis
        by (simp add: ids_at_def map_of_push_group)
    qed
  qed
qed

lemma in_groups_ids_at:
  "distinct (map fst g) \<Longrightarrow> (k, ids) \<in> set g \<Longrightarrow> ids_at g k = ids"
  by (simp add: ids_at_def)

lemma group_loop_distinct:
  "group_loop json_parse ts g = Inr g' \<Longrightarrow> distinct (map fst g) \<Longrightarrow> distinct (map fst g')"
proof (induction ts arbitrary: g)
  case Nil
  then show ?case by simp
next
  case (Cons t ts)
  have d: "distinct (map fst (push_group g n v))" for n v
    using Cons.prems(2) by (simp add: keys_push_group)
  from Cons.prems(1) show ?case
    using Cons.IH Cons.prems(2) d
    by (auto split: sum.splits option.splits)
qed

text \<open>
  C3. A task whose status is in flight (\<^verbatim>\<open>storyboard_generating\<close>, \<^verbatim>\<open>merging\<close> or a status
  that begins with \<^verbatim>\<open>generating_segment_\<close>) gets no next segment. So in a batch no pending
  segment comes from such a task, whatever the selection, and its id enters no group unless
  another task of the batch carries the same id and is not in flight.
\<close>

theorem in_flight_never_selected:
  assumes "in_flight (task_status task)"
  shows "getNextSegmentIndex json_parse task = Inr None
     \<and> (\<forall>infos info. calculatePendingSegments json_parse tasks sel = Inr infos \<and> info \<in> set infos
           \<longrightarrow> nth_opt (tasksToProcess tasks sel) (taskIndex info) \<noteq> Some task)
     \<and> (\<forall>groups k ids. groupTasksBySegmentIndex json_parse tasks sel = Inr groups
             \<and> (k, ids) \<in> set groups
             \<and> (\<forall>t\<in>set tasks. task_id t = task_id task \<longrightarrow> in_flight (task_status t))
           \<longrightarrow> task_id task \<notin> set ids)"
proof (intro conjI allI impI)
  show "getNextSegmentIndex json_parse task = Inr None"
    using assms by (rule getNext_in_flight)
next
  fix infos info
  assume a: "calculatePendingSegments json_parse tasks sel = Inr infos \<and> info \<in> set infos"
  show "nth_opt (tasksToProcess tasks sel) (taskIndex info) \<noteq> Some task"
  proof
    assume "nth_opt (tasksToProcess tasks sel) (taskIndex info) = Some task"
    then have "tasksToProcess tasks sel ! taskIndex info = task" by (simp add: nth_opt_Some)
    with calculatePendingSegments_origin [of json_parse tasks sel infos info] a
    have "pending_of_task json_parse task (taskIndex info) = Inr (Some info)" by simp
    with pending_of_task_in_flight [OF assms] show False by simp
  qed
next
  fix groups k ids
  assume a: "groupTasksBySegmentIndex json_parse tasks sel = Inr groups \<and> (k, ids) \<in> set groups
    \<and> (\<forall>t\<in>set tasks. task_id t = task_id task \<longrightarrow> in_flight (task_status t))"
  then have gl: "group_loop json_parse (tasksToProcess tasks sel) [] = Inr groups"
    by (simp add: groupTasksBySegmentIndex_def)
  from group_loop_distinct [OF gl] have "distinct (map fst groups)" by simp
  with a have "ids_at groups k = ids" by (simp add: in_groups_ids_at)
  with group_loop_ids [OF gl, of k]
  have ids: "ids = map task_id
      (filter (\<lambda>t. getNextSegmentIndex json_parse t = Inr (Some k)) (tasksToProcess tasks sel))"
    by (simp add: ids_at_def)
  show "task_id task \<notin> set ids"
  proof
    assume "task_id task \<in> set ids"
    with ids obtain t where t: "t \<in> set (tasksToProcess tasks sel)" "task_id t = task_id task"
      "getNextSegmentIndex json_parse t = Inr (Some k)" by auto
    with tasksToProcess_subset a have "in_flight (task_status t)" by blast
    from getNext_in_flight [OF this] t(3) show False by simp
  qed
qed

text \<open>C3 on a batch of a task in flight and the task of Scenario A.\<close>

theorem in_flight_never_selected_witness:
  "in_flight (task_status flight_task)
   \<and> getNextSegmentIndex sample_parse flight_task = Inr None
   \<and> calculatePendingSegments sample_parse [flight_task, scenario_task] []
       = Inr [scenario_info 1]
   \<and> nth_opt (tasksToProcess [flight_task, scenario_task] []) (taskIndex (scenario_info 1))
       \<noteq> Some flight_task
   \<and> groupTasksBySegmentIndex sample_parse [flight_task, scenario_task] []
       = Inr [(2, [''recA''])]
   \<and> task_id flight_task \<notin> set [''recA'']"
proof -
  have h: "in_flight (task_status flight_task)" by code_simp
  have e1: "calculatePendingSegments sample_parse [flight_task, scenario_task] []
       = Inr [scenario_info 1]" by code_simp
  have e2: "groupTasksBySegmentIndex sample_parse [flight_task, scenario_task] []
       = Inr [(2, [''recA''])]" by code_simp
  have e3: "\<forall>t\<in>set [flight_task, scenario_task].
      task_id t = task_id flight_task \<longrightarrow> in_flight (task_status t)" by code_simp
  from in_flight_never_selected [OF h, of sample_parse "[flight_task, scenario_task]" "[]"]
    h e1 e2 e3
  show ?thesis by simp
qed

section \<open>The input frame\<close>





section \<open>An empty selection selects all\<close>

lemma filterTasksForStoryboard_Nil: "filterTasksForStoryboard [] = []"
  by (simp add: filterTasksForStoryboard_def)

lemma filterTasksForMerge_Nil: "filterTasksForMerge [] = []"
  by (simp add: filterTasksForMerge_def)

lemma handleGenerateStoryboards_requests:
  "requests (handleGenerateStoryboards generateStoryboards state)
     = storyboard_requests_on state (selected_tasks (page_tasks state) (selectedRecordIds state))"
  by (simp add: handleGenerateStoryboards_def storyboard_requests_on_def Let_def
        tasksToProcess_selected filterTasksForStoryboard_Nil)

lemma handleMergeVideos_requests:
  "requests (handleMergeVideos mergeVideos state)
     = merge_requests_on state (selected_tasks (page_tasks state) (selectedRecordIds state))"
  by (simp add: handleMergeVideos_def merge_requests_on_def Let_def
        tasksToProcess_selected filterTasksForMerge_Nil)

lemma handlers_start_iff_request:
  "(dispatched (handleGenerateStoryboards generateStoryboards state) = [])
     = (requests (handleGenerateStoryboards generateStoryboards state) = [])"
  "(dispatched (handleMergeVideos mergeVideos state) = [])
     = (requests (handleMergeVideos mergeVideos state) = [])"
  by (simp_all add: handleGenerateStoryboards_def handleMergeVideos_def Let_def)

lemma selected_tasks_set:
  "sel \<noteq> [] \<Longrightarrow> selected_tasks tasks sel = filter (\<lambda>t. task_id t \<in> set sel) tasks"
  by (simp add: selected_tasks_def)

text \<open>
  C9. With an empty selection the batch helpers and the stage handlers work on every task,
  with a selection exactly on the tasks whose id is selected: \<open>calculatePendingSegments\<close>,
  \<open>groupTasksBySegmentIndex\<close> and the two handlers give what they give on the selected
  tasks with no selection; the infos are those of the selected tasks, and a group holds the
  ids of the selected tasks whose next segment is its index. With no selection each
  handler sends one request with the ids of all the tasks of the page that pass its
  filter, and none only when no task does; with a selection it sends the ids of the
  selected tasks that pass. A handler starts its operation exactly when it sends a request.
\<close>

theorem empty_selection_is_all:
  "tasksToProcess tasks sel = selected_tasks tasks sel
   \<and> selected_tasks tasks [] = tasks
   \<and> calculatePendingSegments json_parse tasks sel
       = calculatePendingSegments json_parse (selected_tasks tasks sel) []
   \<and> groupTasksBySegmentIndex json_parse tasks sel
       = groupTasksBySegmentIndex json_parse (selected_tasks tasks sel) []
   \<and> (calculatePendingSegments json_parse tasks sel = Inr infos \<longrightarrow>
        infos = infos_of json_parse 0 (selected_tasks tasks sel))
   \<and> (groupTasksBySegmentIndex json_parse tasks sel = Inr groups \<longrightarrow>
        ids_at groups k
          = map task_id (filter (\<lambda>t. getNextSegmentIndex json_parse t = Inr (Some k))
                                (selected_tasks tasks sel)))
   \<and> handleGenerateStoryboards generateStoryboards state
       = handleGenerateStoryboards generateStoryboards
           (state\<lparr>page_tasks := selected_tasks (page_tasks state) (selectedRecordIds state),
                  selectedRecordIds := []\<rparr>)
   \<and> handleMergeVideos mergeVideos state
       = handleMergeVideos mergeVideos
           (state\<lparr>page_tasks := selected_tasks (page_tasks state) (selectedRecordIds state),
                  selectedRecordIds := []\<rparr>)
   \<and> (sel \<noteq> [] \<longrightarrow> selected_tasks tasks sel = filter (\<lambda>t. task_id t \<in> set sel) tasks)
   \<and> (selectedRecordIds state = [] \<longrightarrow>
        requests (handleGenerateStoryboards generateStoryboards state)
          = storyboard_requests_on state (page_tasks state)
        \<and> requests (handleMergeVideos mergeVideos state)
          = merge_requests_on state (page_tasks state))
   \<and> (selectedRecordIds state \<noteq> [] \<longrightarrow>
        requests (handleGenerateStoryboards generateStoryboards state)
          = storyboard_requests_on state
              (filter (\<lambda>t. task_id t \<in> set (selectedRecordIds state)) (page_tasks state))
        \<and> requests (handleMergeVideos mergeVideos state)
          = merge_requests_on state
              (filter (\<lambda>t. task_id t \<in> set (selectedRecordIds state)) (page_tasks state)))
   \<and> (dispatched (handleGenerateStoryboards generateStoryboards state) = [])
       = (requests (handleGenerateStoryboards generateStoryboards state) = [])
   \<and> (dispatched (handleMergeVideos mergeVideos state) = [])
       = (requests (handleMergeVideos mergeVideos state) = [])"
proof (intro conjI impI)
  show "tasksToProcess tasks sel = selected_tasks tasks sel"
    by (rule tasksToProcess_selected)
  show "selected_tasks tasks [] = tasks" by (rule selected_tasks_Nil)
  show "calculatePendingSegments json_parse tasks sel
       = calculatePendingSegments json_parse (selected_tasks tasks sel) []"
    by (simp add: calculatePendingSegments_def tasksToProcess_selected selected_tasks_Nil)
  show "groupTasksBySegmentIndex json_parse tasks sel
       = groupTasksBySegmentIndex json_parse (selected_tasks tasks sel) []"
    by (simp add: groupTasksBySegmentIndex_def tasksToProcess_selected selected_tasks_Nil)
  show "infos = infos_of json_parse 0 (selected_tasks tasks sel)"
    if "calculatePendingSegments json_parse tasks sel = Inr infos"
    using that pending_loop_infos [of json_parse "selected_tasks tasks sel" 0 "[]" infos]
    by (simp add: calculatePendingSegments_def tasksToProcess_selected)
  show "ids_at groups k
          = map task_id (filter (\<lambda>t. getNextSegmentIndex json_parse t = Inr (Some k))
                                (selected_tasks tasks sel))"
    if "groupTasksBySegmentIndex json_parse tasks sel = Inr groups"
    using that group_loop_ids [of json_parse "selected_tasks tasks sel" "[]" groups k]
    by (simp add: groupTasksBySegmentIndex_def tasksToProcess_selected ids_at_def)
  show "handleGenerateStoryboards generateStoryboards state
       = handleGenerateStoryboards generateStoryboards
           (state\<lparr>page_tasks := selected_tasks (page_tasks state) (selectedRecordIds state),
                  selectedRecordIds := []\<rparr>)"
    by (simp add: handleGenerateStoryboards_def tasksToProcess_selected selected_tasks_Nil
          Let_def)
  show "handleMergeVideos mergeVideos state
       = handleMergeVideos mergeVideos
           (state\<lparr>page_tasks := selected_tasks (page_tasks state) (selectedRecordIds state),
                  selectedRecordIds := []\<rparr>)"
    by (simp add: handleMergeVideos_def tasksToProcess_selected selected_tasks_Nil Let_def)
  show "selected_tasks tasks sel = filter (\<lambda>t. task_id t \<in> set sel) tasks" if "sel \<noteq> []"
    using that by (rule selected_tasks_set)
  show "requests (handleGenerateStoryboards generateStoryboards state)
          = storyboard_requests_on state (page_tasks state)"
    if "selectedRecordIds state = []"
    using that by (simp add: handleGenerateStoryboards_requests selected_tasks_Nil)
  show "requests (handleMergeVideos mergeVideos state)
          = merge_requests_on state (page_tasks state)"
    if "selectedRecordIds state = []"
    using that by (simp add: handleMergeVideos_requests selected_tasks_Nil)
  show "requests (handleGenerateStoryboards generateStoryboards state)
          = storyboard_requests_on state
              (filter (\<lambda>t. task_id t \<in> set (selectedRecordIds state)) (page_tasks state))"
    if "selectedRecordIds state \<noteq> []"
    using that by (simp add: handleGenerateStoryboards_requests selected_tasks_set)
  show "requests (handleMergeVideos mergeVideos state)
          = merge_requests_on state
              (filter (\<lambda>t. task_id t \<in> set (selectedRecordIds state)) (page_tasks state))"
    if "selectedRecordIds state \<noteq> []"
    using that by (simp add: handleMergeVideos_requests selected_tasks_set)
  show "(dispatched (handleGenerateStoryboards generateStoryboards state) = [])
       = (requests (handleGenerateStoryboards generateStoryboards state) = [])"
    by (rule handlers_start_iff_request)
  show "(dispatched (handleMergeVideos mergeVideos state) = [])
       = (requests (handleMergeVideos mergeVideos state) = [])"
    by (rule handlers_start_iff_request)
qed

text \<open>
  C9 on a batch of two tasks, with the second selected and with none selected; and on the
  handlers: with no selection they submit from all five tasks of the sample state, with
  two tasks selected from those two only.
\<close>

theorem empty_selection_is_all_witness:
  "selected_tasks [flight_task, scenario_task] [] = [flight_task, scenario_task]
   \<and> tasksToProcess [flight_task, scenario_task] [''recA''] = [scenario_task]
   \<and> calculatePendingSegments sample_parse [flight_task, scenario_task] [''recA'']
       = Inr [scenario_info 0]
   \<and> infos_of sample_parse 0 (selected_tasks [flight_task, scenario_task] [''recA''])
       = [scenario_info 0]
   \<and> groupTasksBySegmentIndex sample_parse [flight_task, scenario_task] []
       = Inr [(2, [''recA''])]
   \<and> map task_id (filter (\<lambda>t. getNextSegmentIndex sample_parse t = Inr (Some 2))
                          (selected_tasks [flight_task, scenario_task] [])) = [''recA'']
   \<and> selectedRecordIds sample_state = []
   \<and> map task_id (page_tasks sample_state) = [''rec0'', ''recF'', ''recA'', ''recR'', ''recB'']
   \<and> requests (handleGenerateStoryboards storyboards_succeed sample_state)
       = [\<lparr>gsb_tableId = ''tbl1'', gsb_recordIds = [''recF'', ''recA''], gsb_concurrency = 10\<rparr>]
   \<and> requests (handleMergeVideos merge_succeeds sample_state)
       = [\<lparr>mv_tableId = ''tbl1'', mv_recordIds = [''recR'']\<rparr>]
   \<and> selectedRecordIds selected_state = [''recA'', ''recR'']
   \<and> requests (handleGenerateStoryboards storyboards_succeed selected_state)
       = [\<lparr>gsb_tableId = ''tbl1'', gsb_recordIds = [''recA''], gsb_concurrency = 10\<rparr>]
   \<and> requests (handleMergeVideos merge_succeeds selected_state)
       = [\<lparr>mv_tableId = ''tbl1'', mv_recordIds = [''recR'']\<rparr>]
   \<and> dispatched (handleGenerateStoryboards storyboards_succeed sample_state)
       = [GENERATE_STORYBOARD_START, GENERATE_STORYBOARD_SUCCESS 2 0]"
proof -
  have e1: "calculatePendingSegments sample_parse [flight_task, scenario_task] [''recA'']
       = Inr [scenario_info 0]" by code_simp
  have e2: "groupTasksBySegmentIndex sample_parse [flight_task, scenario_task] []
       = Inr [(2, [''recA''])]" by code_simp
  have e3: "selected_tasks [flight_task, scenario_task] [''recA''] = [scenario_task]"
    "ids_at [(2, [''recA''])] 2 = [''recA'']"
    by code_simp+
  note T1 = empty_selection_is_all [of "[flight_task, scenario_task]" "[''recA'']" sample_parse
         "[scenario_info 0]" "[(2, [''recA''])]" 2 storyboards_succeed sample_state
         merge_succeeds]
  note T2 = empty_selection_is_all [of "[flight_task, scenario_task]" "[]" sample_parse
         "[scenario_info 1]" "[(2, [''recA''])]" 2 storyboards_succeed selected_state
         merge_succeeds]
  from T1 T2 e1 e2 e3 have helpers:
    "selected_tasks [flight_task, scenario_task] [] = [flight_task, scenario_task]"
    "tasksToProcess [flight_task, scenario_task] [''recA''] = [scenario_task]"
    "infos_of sample_parse 0 (selected_tasks [flight_task, scenario_task] [''recA''])
       = [scenario_info 0]"
    "map task_id (filter (\<lambda>t. getNextSegmentIndex sample_parse t = Inr (Some 2))
                          (selected_tasks [flight_task, scenario_task] [])) = [''recA'']"
    by simp_all
  have s1: "selectedRecordIds sample_state = []" by code_simp
  have s2: "selectedRecordIds selected_state \<noteq> []" by code_simp
  have s3: "selectedRecordIds selected_state = [''recA'', ''recR'']" by code_simp
  have s4: "map task_id (page_tasks sample_state)
      = [''rec0'', ''recF'', ''recA'', ''recR'', ''recB'']" by code_simp
  have a1: "storyboard_requests_on sample_state (page_tasks sample_state)
      = [\<lparr>gsb_tableId = ''tbl1'', gsb_recordIds = [''recF'', ''recA''], gsb_concurrency = 10\<rparr>]"
    by code_simp
  have a2: "merge_requests_on sample_state (page_tasks sample_state)
      = [\<lparr>mv_tableId = ''tbl1'', mv_recordIds = [''recR'']\<rparr>]" by code_simp
  have b1: "storyboard_requests_on selected_state
       (filter (\<lambda>t. task_id t \<in> set (selectedRecordIds selected_state))
               (page_tasks selected_state))
      = [\<lparr>gsb_tableId = ''tbl1'', gsb_recordIds = [''recA''], gsb_concurrency = 10\<rparr>]"
    by code_simp
  have b2: "merge_requests_on selected_state
       (filter (\<lambda>t. task_id t \<in> set (selectedRecordIds selected_state))
               (page_tasks selected_state))
      = [\<lparr>mv_tableId = ''tbl1'', mv_recordIds = [''recR'']\<rparr>]" by code_simp
  have d: "dispatched (handleGenerateStoryboards storyboards_succeed sample_state)
       = [GENERATE_STORYBOARD_START, GENERATE_STORYBOARD_SUCCESS 2 0]" by code_simp
  from T1 s1 have A:
    "requests (handleGenerateStoryboards storyboards_succeed sample_state)
       = storyboard_requests_on sample_state (page_tasks sample_state)"
    "requests (handleMergeVideos merge_succeeds sample_state)
       = merge_requests_on sample_state (page_tasks sample_state)"
    by blast+
  from T2 s2 have B:
    "requests (handleGenerateStoryboards storyboards_succeed selected_state)
       = storyboard_requests_on selected_state
           (filter (\<lambda>t. task_id t \<in> set (selectedRecordIds selected_state))
                   (page_tasks selected_state))"
    "requests (handleMergeVideos merge_succeeds selected_state)
       = merge_requests_on selected_state
           (filter (\<lambda>t. task_id t \<in> set (selectedRecordIds selected_state))
                   (page_tasks selected_state))"
    by blast+
  from helpers e1 e2 s1 s3 s4 d A [unfolded a1 a2] B [unfolded b1 b2]
  show ?thesis by blast
qed

section \<open>What the stage handlers submit\<close>

text \<open>
  C6. \<open>filterTasksForMerge\<close> returns exactly the tasks whose status is
  \<^verbatim>\<open>all_segments_ready\<close>, and every record id that \<open>handleMergeVideos\<close> submits is the id of
  such a task.
\<close>

theorem filterTasksForMerge_exact:
  "filterTasksForMerge tasks = filter (\<lambda>t. task_status t = ''all_segments_ready'') tasks
   \<and> set (filterTasksForMerge tasks) = {t \<in> set tasks. task_status t = ''all_segments_ready''}
   \<and> (\<forall>req\<in>set (requests (handleMergeVideos mergeVideos state)).
        mv_recordIds req
          = map task_id (filterTasksForMerge
                           (tasksToProcess (page_tasks state) (selectedRecordIds state)))
        \<and> (\<forall>rid\<in>set (mv_recordIds req).
              \<exists>t\<in>set (page_tasks state).
                task_id t = rid \<and> task_status t = ''all_segments_ready''))"
proof -
  have "\<exists>t\<in>set (page_tasks state). task_id t = rid \<and> task_status t = ''all_segments_ready''"
    if "rid \<in> set (map task_id (filterTasksForMerge
                     (tasksToProcess (page_tasks state) (selectedRecordIds state))))" for rid
    using that tasksToProcess_subset [of "page_tasks state" "selectedRecordIds state"]
    by (auto simp: filterTasksForMerge_def)
  then show ?thesis
    by (auto simp: filterTasksForMerge_def handleMergeVideos_def Let_def)
qed

text \<open>C6 on the sample state: of its five tasks the handler submits the one that is ready.\<close>

theorem filterTasksForMerge_exact_witness:
  "requests (handleMergeVideos merge_succeeds sample_state)
     = [\<lparr>mv_tableId = ''tbl1'', mv_recordIds = [''recR'']\<rparr>]
   \<and> filterTasksForMerge (tasksToProcess (page_tasks sample_state)
                            (selectedRecordIds sample_state)) = [ready_task]
   \<and> task_id ready_task = ''recR''
   \<and> task_status ready_task = ''all_segments_ready''"
proof -
  have e: "requests (handleMergeVideos merge_succeeds sample_state)
     = [\<lparr>mv_tableId = ''tbl1'', mv_recordIds = [''recR'']\<rparr>]" by code_simp
  have f: "filterTasksForMerge
             (tasksToProcess (page_tasks sample_state) (selectedRecordIds sample_state))
           = [ready_task]" by code_simp
  have g: "task_id ready_task = ''recR''" "task_status ready_task = ''all_segments_ready''"
    by code_simp+
  note T = filterTasksForMerge_exact
         [of "tasksToProcess (page_tasks sample_state) (selectedRecordIds sample_state)"
             merge_succeeds sample_state, THEN conjunct2, THEN conjunct2]
  from T e have "mv_recordIds \<lparr>mv_tableId = ''tbl1'', mv_recordIds = [''recR'']\<rparr>
          = map task_id (filterTasksForMerge
                           (tasksToProcess (page_tasks sample_state) (selectedRecordIds sample_state)))"
    by (simp del: MergeVideosParams.simps)
  with e f g show ?thesis by simp
qed

text \<open>
  C7. \<open>filterTasksForStoryboard\<close> returns exactly the tasks that have an opening image
  and whose status is \<^verbatim>\<open>pending\<close> or \<^verbatim>\<open>storyboard_ready\<close>, and every record id that
  \<open>handleGenerateStoryboards\<close> submits is the id of such a task: a task without an
  opening image is never submitted.
\<close>

theorem filterTasksForStoryboard_exact:
  "filterTasksForStoryboard tasks
     = filter (\<lambda>t. present (openingImageUrl t)
                  \<and> (task_status t = ''pending'' \<or> task_status t = ''storyboard_ready'')) tasks
   \<and> set (filterTasksForStoryboard tasks)
       = {t \<in> set tasks. present (openingImageUrl t)
                  \<and> (task_status t = ''pending'' \<or> task_status t = ''storyboard_ready'')}
   \<and> (\<forall>req\<in>set (requests (handleGenerateStoryboards generateStoryboards state)).
        gsb_recordIds req
          = map task_id (filterTasksForStoryboard
                           (tasksToProcess (page_tasks state) (selectedRecordIds state)))
        \<and> (\<forall>rid\<in>set (gsb_recordIds req).
              \<exists>t\<in>set (page_tasks state). task_id t = rid \<and> present (openingImageUrl t)
                \<and> (task_status t = ''pending'' \<or> task_status t = ''storyboard_ready'')))"
proof -
  have "\<exists>t\<in>set (page_tasks state). task_id t = rid \<and> present (openingImageUrl t)
                \<and> (task_status t = ''pending'' \<or> task_status t = ''storyboard_ready'')"
    if "rid \<in> set (map task_id (filterTasksForStoryboard
                     (tasksToProcess (page_tasks state) (selectedRecordIds state))))" for rid
    using that tasksToProcess_subset [of "page_tasks state" "selectedRecordIds state"]
    by (auto simp: filterTasksForStoryboard_def)
  then show ?thesis
    by (auto simp: filterTasksForStoryboard_def handleGenerateStoryboards_def Let_def)
qed

text \<open>
  C7 on the sample state: the handler submits the two tasks with an opening image and a
  fitting status, and not the pending task without an image.
\<close>

theorem filterTasksForStoryboard_exact_witness:
  "requests (handleGenerateStoryboards storyboards_succeed sample_state)
     = [\<lparr>gsb_tableId = ''tbl1'', gsb_recordIds = [''recF'', ''recA''], gsb_concurrency = 10\<rparr>]
   \<and> filterTasksForStoryboard (tasksToProcess (page_tasks sample_state)
                                 (selectedRecordIds sample_state))
       = [fresh_task, scenario_task]
   \<and> \<not> present (openingImageUrl blank_task)
   \<and> present (openingImageUrl fresh_task) \<and> present (openingImageUrl scenario_task)"
proof -
  have e: "requests (handleGenerateStoryboards storyboards_succeed sample_state)
     = [\<lparr>gsb_tableId = ''tbl1'', gsb_recordIds = [''recF'', ''recA''], gsb_concurrency = 10\<rparr>]"
    by code_simp
  have f: "filter (\<lambda>t. present (openingImageUrl t)
                  \<and> (task_status t = ''pending'' \<or> task_status t = ''storyboard_ready''))
             (tasksToProcess (page_tasks sample_state) (selectedRecordIds sample_state))
           = [fresh_task, scenario_task]" by code_simp
  have g: "\<not> present (openingImageUrl blank_task)" "present (openingImageUrl fresh_task)"
    "present (openingImageUrl scenario_task)"
    by code_simp+
  from filterTasksForStoryboard_exact
         [of "tasksToProcess (page_tasks sample_state) (selectedRecordIds sample_state)"
             storyboards_succeed sample_state] e f g
  show ?thesis by simp
qed

section \<open>The error message of the page\<close>

lemma reducer_errorMessage:
  "errorMessage (pageReducer state a)
     = (if is_start a \<or> a = CLEAR_ERROR then None
        else case failure_payload a of Some msg \<Rightarrow> Some msg | None \<Rightarrow> errorMessage state)"
  by (cases a) simp_all

lemma reducer_failure_status:
  "failure_payload a = Some msg \<Longrightarrow> page_status (pageReducer state a) = ErrorStatus"
  by (cases a) simp_all

lemma start_not_failure: "is_start a \<or> a = CLEAR_ERROR \<Longrightarrow> failure_payload a = None"
  by (cases a) auto

lemma foldl_keeps_error:
  "list_all keeps_error acts \<Longrightarrow>
   errorMessage (foldl pageReducer state acts) = errorMessage state"
  by (induction acts arbitrary: state) (simp_all add: reducer_errorMessage keeps_error_def)

text \<open>
  C8. Every failure action sets the status to error and the error message to its payload.
  The message is cleared by the start of an operation and by \<^verbatim>\<open>CLEAR_ERROR\<close>, replaced by
  the next failure, and kept by every other action, hence through any sequence of them.
\<close>

theorem errorMessage_lifecycle:
  "(failure_payload a = Some msg \<longrightarrow>
      page_status (pageReducer state a) = ErrorStatus
      \<and> errorMessage (pageReducer state a) = Some msg)
   \<and> (is_start a \<or> a = CLEAR_ERROR \<longrightarrow> errorMessage (pageReducer state a) = None)
   \<and> (keeps_error a \<longrightarrow> errorMessage (pageReducer state a) = errorMessage state)
   \<and> (errorMessage (pageReducer state a) \<noteq> errorMessage state \<longrightarrow>
        is_start a \<or> a = CLEAR_ERROR \<or> failure_payload a \<noteq> None)
   \<and> (list_all keeps_error acts \<longrightarrow>
        errorMessage (foldl pageReducer (pageReducer state a) acts)
          = errorMessage (pageReducer state a))"
proof (intro conjI impI)
  assume f: "failure_payload a = Some msg"
  then show "page_status (pageReducer state a) = ErrorStatus"
    by (rule reducer_failure_status)
  from f start_not_failure [of a] show "errorMessage (pageReducer state a) = Some msg"
    by (auto simp: reducer_errorMessage)
next
  assume "is_start a \<or> a = CLEAR_ERROR"
  then show "errorMessage (pageReducer state a) = None"
    by (simp add: reducer_errorMessage)
next
  assume "keeps_error a"
  then show "errorMessage (pageReducer state a) = errorMessage state"
    by (simp add: reducer_errorMessage keeps_error_def)
next
  assume "errorMessage (pageReducer state a) \<noteq> errorMessage state"
  then show "is_start a \<or> a = CLEAR_ERROR \<or> failure_payload a \<noteq> None"
    by (cases "failure_payload a") (auto simp: reducer_errorMessage split: if_splits)
next
  assume "list_all keeps_error acts"
  then show "errorMessage (foldl pageReducer (pageReducer state a) acts)
      = errorMessage (pageReducer state a)"
    by (rule foldl_keeps_error)
qed

text \<open>
  C8 from the initial state: a failed merge leaves its message, a load, a selection and a
  finished sync keep it, the start of the next merge clears it.
\<close>

theorem errorMessage_lifecycle_witness:
  "failure_payload (MERGE_FAILURE ''boom'') = Some ''boom''
   \<and> page_status (pageReducer INITIAL_STATE (MERGE_FAILURE ''boom'')) = ErrorStatus
   \<and> errorMessage (pageReducer INITIAL_STATE (MERGE_FAILURE ''boom'')) = Some ''boom''
   \<and> errorMessage
       (foldl pageReducer (pageReducer INITIAL_STATE (MERGE_FAILURE ''boom''))
          [LOAD_TASKS_SUCCESS [], SELECT_TASK None, SYNC_SUCCESS]) = Some ''boom''
   \<and> errorMessage
       (pageReducer (pageReducer INITIAL_STATE (MERGE_FAILURE ''boom'')) SYNC_SUCCESS)
       = Some ''boom''
   \<and> errorMessage
       (pageReducer (pageReducer INITIAL_STATE (MERGE_FAILURE ''boom'')) MERGE_START) = None"
proof -
  have k: "list_all keeps_error [LOAD_TASKS_SUCCESS [], SELECT_TASK None, SYNC_SUCCESS]"
    "keeps_error SYNC_SUCCESS" "is_start MERGE_START"
    "failure_payload (MERGE_FAILURE ''boom'') = Some ''boom''"
    "errorMessage INITIAL_STATE = None"
    by code_simp+
  from errorMessage_lifecycle [of "MERGE_FAILURE ''boom''" "''boom''" INITIAL_STATE
         "[LOAD_TASKS_SUCCESS [], SELECT_TASK None, SYNC_SUCCESS]"]
       errorMessage_lifecycle [of SYNC_SUCCESS "''x''"
         "pageReducer INITIAL_STATE (MERGE_FAILURE ''boom'')" "[]"]
       errorMessage_lifecycle [of MERGE_START "''x''"
         "pageReducer INITIAL_STATE (MERGE_FAILURE ''boom'')" "[]"]
       k
  show ?thesis by simp
qed

section \<open>The fan-out of a confirmed batch\<close>

lemma group_edits_ids:
  "ids_at (group_edits es g) k = ids_at g k @ group_ids es k"
  by (induction es arbitrary: g) (simp_all add: group_ids_def ids_at_def map_of_push_group)

lemma group_edits_keys:
  "fst ` set (group_edits es g) = fst ` set g \<union> edit_segmentIndex ` set es"
  by (induction es arbitrary: g) (simp_all add: key_set_push_group)

lemma group_edits_distinct:
  "distinct (map fst g) \<Longrightarrow> distinct (map fst (group_edits es g))"
  by (induction es arbitrary: g) (simp_all add: keys_push_group)

lemma segmentIndices_group_edits:
  "segmentIndices (group_edits es []) = group_keys es"
proof -
  have "distinct (map fst (group_edits es []))" by (simp add: group_edits_distinct)
  then have "distinct (segmentIndices (group_edits es []))"
    by (simp add: segmentIndices_def)
  moreover have "set (segmentIndices (group_edits es [])) = set (group_keys es)"
    by (simp add: segmentIndices_def group_keys_def group_edits_keys)
  ultimately show ?thesis
    by (intro sorted_distinct_set_unique) (simp_all add: segmentIndices_def group_keys_def)
qed

lemma map_of_group_edits:
  assumes "k \<in> set (group_keys es)"
  shows "map_of (group_edits es []) k = Some (group_ids es k)"
proof -
  from assms have "k \<in> set (map fst (group_edits es []))"
    by (simp add: group_keys_def group_edits_keys)
  then obtain ids where "map_of (group_edits es []) k = Some ids"
    by (cases "map_of (group_edits es []) k") (auto simp: map_of_eq_None_iff)
  moreover from this group_edits_ids [of es "[]" k] have "ids = group_ids es k"
    by (simp add: ids_at_def)
  ultimately show ?thesis by simp
qed

lemma fan_step_found:
  assumes "map_of groups k = Some ids"
  shows "totalSuccess (fan_step gen state groups k acc)
           = totalSuccess acc
             + group_success gen \<lparr>gs_tableId = tableId (feishuConfig state), gs_recordIds = ids,
                 gs_segmentIndex = k, gs_concurrency = videoConcurrency (settings state)\<rparr>"
    and "totalFailed (fan_step gen state groups k acc)
           = totalFailed acc
             + group_failed gen \<lparr>gs_tableId = tableId (feishuConfig state), gs_recordIds = ids,
                 gs_segmentIndex = k, gs_concurrency = videoConcurrency (settings state)\<rparr>"
    and "fan_requests (fan_step gen state groups k acc)
           = fan_requests acc
             @ [\<lparr>gs_tableId = tableId (feishuConfig state), gs_recordIds = ids,
                 gs_segmentIndex = k, gs_concurrency = videoConcurrency (settings state)\<rparr>]"
    and "fan_dispatched (fan_step gen state groups k acc)
           = fan_dispatched acc @ [GENERATE_SEGMENT_START k]"
    and "fan_thrown (fan_step gen state groups k acc) = fan_thrown acc"
  using assms
  by (simp_all add: fan_step_def Let_def group_success_def group_failed_def or_zero_def
        split: sum.splits)

lemma fan_loop_run:
  assumes "\<forall>k\<in>set ks. map_of (group_edits edits []) k = Some (group_ids edits k)"
    and "fan_thrown acc = None"
  shows "totalSuccess (fan_loop gen state (group_edits edits []) ks acc)
           = totalSuccess acc + sum_list (map (group_success gen) (map (request_for state edits) ks))
       \<and> totalFailed (fan_loop gen state (group_edits edits []) ks acc)
           = totalFailed acc + sum_list (map (group_failed gen) (map (request_for state edits) ks))
       \<and> fan_requests (fan_loop gen state (group_edits edits []) ks acc)
           = fan_requests acc @ map (request_for state edits) ks
       \<and> fan_dispatched (fan_loop gen state (group_edits edits []) ks acc)
           = fan_dispatched acc @ map GENERATE_SEGMENT_START ks
       \<and> fan_thrown (fan_loop gen state (group_edits edits []) ks acc) = None"
  using assms
proof (induction ks arbitrary: acc)
  case Nil
  then show ?case by simp
next
  case (Cons k ks)
  let ?acc' = "fan_step gen state (group_edits edits []) k acc"
  from Cons.prems have m: "map_of (group_edits edits []) k = Some (group_ids edits k)" by simp
  note s = fan_step_found [OF m, of gen state acc, folded request_for_def]
  from s(5) Cons.prems(2) have t: "fan_thrown ?acc' = None" by simp
  from Cons.prems(1) have "\<forall>k\<in>set ks. map_of (group_edits edits []) k = Some (group_ids edits k)"
    by simp
  from Cons.IH [OF this t] t s show ?case by (simp add: Let_def)
qed

text \<open>
  C5, as the handler has it. When the save of the modified prompts does not throw (in
  particular when no edit is modified), one request is sent for every group, in ascending
  order of the segment index and whatever the earlier calls did; a call that throws adds
  the size of its group to the failed count; the two counts returned are the sums of the
  counts of the groups; and success is reported exactly when the failed count is 0. When
  the save throws, no request is sent and every edit counts as failed.
\<close>

theorem fanout_after_save:
  "(\<not> save_throws batchSavePrompts state edits \<longrightarrow>
      segment_requests (handleBatchEditConfirm batchSavePrompts generateSegments state edits)
        = map (request_for state edits) (group_keys edits)
      \<and> successCount
          (confirm_result (handleBatchEditConfirm batchSavePrompts generateSegments state edits))
        = sum_list (map (group_success generateSegments)
                        (map (request_for state edits) (group_keys edits)))
      \<and> failedCount
          (confirm_result (handleBatchEditConfirm batchSavePrompts generateSegments state edits))
        = sum_list (map (group_failed generateSegments)
                        (map (request_for state edits) (group_keys edits)))
      \<and> success
          (confirm_result (handleBatchEditConfirm batchSavePrompts generateSegments state edits))
        = (failedCount
            (confirm_result
               (handleBatchEditConfirm batchSavePrompts generateSegments state edits)) = 0)
      \<and> error
          (confirm_result (handleBatchEditConfirm batchSavePrompts generateSegments state edits))
        = None)
   \<and> (save_throws batchSavePrompts state edits \<longrightarrow>
        segment_requests (handleBatchEditConfirm batchSavePrompts generateSegments state edits)
          = []
        \<and> successCount
            (confirm_result (handleBatchEditConfirm batchSavePrompts generateSegments state edits))
          = 0
        \<and> failedCount
            (confirm_result (handleBatchEditConfirm batchSavePrompts generateSegments state edits))
          = length edits
        \<and> \<not> success
            (confirm_result
               (handleBatchEditConfirm batchSavePrompts generateSegments state edits)))"
proof (intro conjI impI)
  let ?run = "handleBatchEditConfirm batchSavePrompts generateSegments state edits"
  let ?fan = "fan_loop generateSegments state (group_edits edits []) (group_keys edits)
                \<lparr>totalSuccess = 0, totalFailed = 0, fan_requests = [],
                 fan_dispatched = [], fan_thrown = None\<rparr>"
  have "\<forall>k\<in>set (group_keys edits). map_of (group_edits edits []) k = Some (group_ids edits k)"
    by (simp add: map_of_group_edits)
  from fan_loop_run [OF this, of _ generateSegments state]
  have fan: "totalSuccess ?fan
           = sum_list (map (group_success generateSegments)
                           (map (request_for state edits) (group_keys edits)))"
    "totalFailed ?fan
           = sum_list (map (group_failed generateSegments)
                           (map (request_for state edits) (group_keys edits)))"
    "fan_requests ?fan = map (request_for state edits) (group_keys edits)"
    "fan_thrown ?fan = None"
    by simp_all
  {
    assume ok: "\<not> save_throws batchSavePrompts state edits"
    then have run: "?run =
        \<lparr>confirm_result =
           \<lparr>success = (totalFailed ?fan = 0), successCount = totalSuccess ?fan,
            failedCount = totalFailed ?fan, error = None\<rparr>,
         save_requests = (if length (filter isModified edits) > 0
             then [(tableId (feishuConfig state), map save_item_of (filter isModified edits))]
             else []),
         segment_requests = fan_requests ?fan,
         confirm_dispatched =
           fan_dispatched ?fan
           @ [GENERATE_SEGMENT_SUCCESS (totalSuccess ?fan) (totalFailed ?fan)]\<rparr>"
      using fan(4)
      by (auto simp: handleBatchEditConfirm_def save_throws_def Let_def
            segmentIndices_group_edits split: sum.splits)
    show "segment_requests ?run = map (request_for state edits) (group_keys edits)"
      unfolding run using fan(3) by simp
    show "successCount (confirm_result ?run)
        = sum_list (map (group_success generateSegments)
                        (map (request_for state edits) (group_keys edits)))"
      unfolding run using fan(1) by simp
    show "failedCount (confirm_result ?run)
        = sum_list (map (group_failed generateSegments)
                        (map (request_for state edits) (group_keys edits)))"
      unfolding run using fan(2) by simp
    show "success (confirm_result ?run) = (failedCount (confirm_result ?run) = 0)"
      unfolding run by simp
    show "error (confirm_result ?run) = None"
      unfolding run by simp
  }
  {
    assume bad: "save_throws batchSavePrompts state edits"
    then obtain err where
      "batchSavePrompts (tableId (feishuConfig state))
         (map save_item_of (filter isModified edits)) = Inl err"
      "filter isModified edits \<noteq> []"
      by (auto simp: save_throws_def isl_def)
    then have run: "?run =
        \<lparr>confirm_result = caught edits err,
         save_requests =
           [(tableId (feishuConfig state), map save_item_of (filter isModified edits))],
         segment_requests = [], confirm_dispatched = []\<rparr>"
      by (simp add: handleBatchEditConfirm_def Let_def)
    show "segment_requests ?run = []" unfolding run by simp
    show "successCount (confirm_result ?run) = 0" unfolding run by (simp add: caught_def)
    show "failedCount (confirm_result ?run) = length edits"
      unfolding run by (simp add: caught_def)
    show "\<not> success (confirm_result ?run)" unfolding run by (simp add: caught_def)
  }
qed

text \<open>
  C5 as it is stated fails where the save throws: the batch below has one group, for
  segment 2, whose call is never attempted, and the failed count is 1 although the call of
  that group would have reported no failure.
\<close>

theorem fanout_counterexample:
  "group_keys [sample_edit ''r1'' 2 True] = [2]
   \<and> segment_requests
       (handleBatchEditConfirm save_fails segments_succeed sample_state
          [sample_edit ''r1'' 2 True]) = []
   \<and> failedCount
       (confirm_result
          (handleBatchEditConfirm save_fails segments_succeed sample_state
             [sample_edit ''r1'' 2 True])) = 1
   \<and> group_failed segments_succeed
       (request_for sample_state [sample_edit ''r1'' 2 True] 2) = 0"
  by code_simp

text \<open>
  C5 on three edits in two groups, where the call for segment 0 throws and the one for
  segment 2 is still made; and on the batch whose save throws.
\<close>

theorem fanout_after_save_witness:
  "\<not> save_throws save_succeeds sample_state sample_edits
   \<and> segment_requests
       (handleBatchEditConfirm save_succeeds segment_0_fails sample_state sample_edits)
     = [\<lparr>gs_tableId = ''tbl1'', gs_recordIds = [''r2''], gs_segmentIndex = 0,
          gs_concurrency = 5\<rparr>,
        \<lparr>gs_tableId = ''tbl1'', gs_recordIds = [''r1'', ''r3''], gs_segmentIndex = 2,
          gs_concurrency = 5\<rparr>]
   \<and> successCount
       (confirm_result
          (handleBatchEditConfirm save_succeeds segment_0_fails sample_state sample_edits)) = 2
   \<and> failedCount
       (confirm_result
          (handleBatchEditConfirm save_succeeds segment_0_fails sample_state sample_edits)) = 1
   \<and> \<not> success
       (confirm_result
          (handleBatchEditConfirm save_succeeds segment_0_fails sample_state sample_edits))
   \<and> save_throws save_fails sample_state [sample_edit ''r1'' 2 True]
   \<and> \<not> success
       (confirm_result
          (handleBatchEditConfirm save_fails segments_succeed sample_state
             [sample_edit ''r1'' 2 True]))"
proof -
  have h1: "\<not> save_throws save_succeeds sample_state sample_edits" by code_simp
  have h2: "save_throws save_fails sample_state [sample_edit ''r1'' 2 True]" by code_simp
  have e1: "map (request_for sample_state sample_edits) (group_keys sample_edits)
     = [\<lparr>gs_tableId = ''tbl1'', gs_recordIds = [''r2''], gs_segmentIndex = 0,
          gs_concurrency = 5\<rparr>,
        \<lparr>gs_tableId = ''tbl1'', gs_recordIds = [''r1'', ''r3''], gs_segmentIndex = 2,
          gs_concurrency = 5\<rparr>]" by code_simp
  have e2: "sum_list (map (group_success segment_0_fails)
                        (map (request_for sample_state sample_edits) (group_keys sample_edits)))
            = 2" by code_simp
  have e3: "sum_list (map (group_failed segment_0_fails)
                        (map (request_for sample_state sample_edits) (group_keys sample_edits)))
            = 1" by code_simp
  note A = fanout_after_save [of save_succeeds sample_state sample_edits segment_0_fails,
             THEN conjunct1, rule_format, OF h1]
  note B = fanout_after_save [of save_fails sample_state "[sample_edit ''r1'' 2 True]"
             segments_succeed, THEN conjunct2, rule_format, OF h2]
  from A e1 e2 e3 have
    "segment_requests
       (handleBatchEditConfirm save_succeeds segment_0_fails sample_state sample_edits)
     = [\<lparr>gs_tableId = ''tbl1'', gs_recordIds = [''r2''], gs_segmentIndex = 0,
          gs_concurrency = 5\<rparr>,
        \<lparr>gs_tableId = ''tbl1'', gs_recordIds = [''r1'', ''r3''], gs_segmentIndex = 2,
          gs_concurrency = 5\<rparr>]"
    "successCount
       (confirm_result
          (handleBatchEditConfirm save_succeeds segment_0_fails sample_state sample_edits)) = 2"
    "failedCount
       (confirm_result
          (handleBatchEditConfirm save_succeeds segment_0_fails sample_state sample_edits)) = 1"
    "\<not> success
       (confirm_result
          (handleBatchEditConfirm save_succeeds segment_0_fails sample_state sample_edits))"
    by simp_all
  with h1 h2 B show ?thesis by blast
qed

section \<open>Cascade redo is all or nothing\<close>

lemma write_archive_result:
  "write_archive write_fails es arch = (if list_ex write_fails es then None else Some (arch @ es))"
  by (induction es arbitrary: arch) simp_all

lemma cascadeRedo_conflict:
  "live_lock now (store_lock store) = Some held \<Longrightarrow>
   cascadeRedo write_fails now store fromIndex alsoResetScript
     = (Inl (ConflictError (operation held)), store)"
  by (simp add: cascadeRedo_def)

lemma cascadeRedo_fault:
  "live_lock now (store_lock store) = None \<Longrightarrow>
   list_ex write_fails (redo_entries now store fromIndex) \<Longrightarrow>
   cascadeRedo write_fails now store fromIndex alsoResetScript
     = (Inl PersistenceError, store\<lparr>store_lock := None\<rparr>)"
  by (simp add: cascadeRedo_def Let_def write_archive_result redo_entries_def redo_targets_def)

lemma cascadeRedo_done:
  assumes "live_lock now (store_lock store) = None"
    and "\<not> list_ex write_fails (redo_entries now store fromIndex)"
  shows "fst (cascadeRedo write_fails now store fromIndex alsoResetScript)
           = Inr \<lparr>archived = redo_entries now store fromIndex,
                   cleared = map sr_index (redo_targets store fromIndex)\<rparr>"
    and "store_archive (snd (cascadeRedo write_fails now store fromIndex alsoResetScript))
           = store_archive store @ redo_entries now store fromIndex"
    and "segmentResults (store_unit (snd (cascadeRedo write_fails now store fromIndex alsoResetScript)))
           = cleared_results now fromIndex (segmentResults (store_unit store))"
    and "segmentSpecs (store_unit (snd (cascadeRedo write_fails now store fromIndex alsoResetScript)))
           = (if alsoResetScript then map (clear_spec fromIndex) (segmentSpecs (store_unit store))
              else segmentSpecs (store_unit store))"
    and "unit_status (store_unit (snd (cascadeRedo write_fails now store fromIndex alsoResetScript)))
           = derive_status (store_unit (snd (cascadeRedo write_fails now store fromIndex alsoResetScript)))"
    and "store_lock (snd (cascadeRedo write_fails now store fromIndex alsoResetScript)) = None"
  using assms
  by (simp_all add: cascadeRedo_def Let_def write_archive_result redo_entries_def
        redo_targets_def cleared_results_def derive_status_def)

lemma cleared_results_footprint:
  "length (cleared_results now k rs) = length rs
   \<and> map sr_index (cleared_results now k rs) = map sr_index rs
   \<and> list_all (\<lambda>r. \<not> affected k r) (cleared_results now k rs)"
  by (induction rs) (auto simp: cleared_results_def clear_result_def affected_def)

text \<open>
  C4. A cascade redo either fails, and then leaves the unit and its archive as they were,
  or returns the archived entries and the cleared indices: then every completed result
  from \<open>fromIndex\<close> on has its snapshot appended to the archive and is cleared to pending,
  every other result is as it was, and no result from \<open>fromIndex\<close> on is left completed.
  It fails exactly when the lock is held or an archive write fails.
\<close>

theorem cascadeRedo_all_or_nothing:
  "isl (fst (cascadeRedo write_fails now store fromIndex alsoResetScript))
     = redo_aborts write_fails now store fromIndex
   \<and> (redo_aborts write_fails now store fromIndex \<longrightarrow>
        store_unit (snd (cascadeRedo write_fails now store fromIndex alsoResetScript))
          = store_unit store
        \<and> store_archive (snd (cascadeRedo write_fails now store fromIndex alsoResetScript))
          = store_archive store)
   \<and> (\<not> redo_aborts write_fails now store fromIndex \<longrightarrow>
        fst (cascadeRedo write_fails now store fromIndex alsoResetScript)
          = Inr \<lparr>archived = redo_entries now store fromIndex,
                  cleared = map sr_index (redo_targets store fromIndex)\<rparr>
        \<and> store_archive (snd (cascadeRedo write_fails now store fromIndex alsoResetScript))
          = store_archive store @ redo_entries now store fromIndex
        \<and> map ae_snapshot (redo_entries now store fromIndex) = redo_targets store fromIndex
        \<and> segmentResults
            (store_unit (snd (cascadeRedo write_fails now store fromIndex alsoResetScript)))
          = map (\<lambda>r. if affected fromIndex r then clear_result now r else r)
                (segmentResults (store_unit store))
        \<and> list_all (\<lambda>r. \<not> affected fromIndex r)
            (segmentResults
               (store_unit (snd (cascadeRedo write_fails now store fromIndex alsoResetScript)))))"
proof (cases "live_lock now (store_lock store)")
  case (Some held)
  then have "redo_aborts write_fails now store fromIndex" by (simp add: redo_aborts_def)
  with cascadeRedo_conflict [OF Some] show ?thesis by simp
next
  case None
  show ?thesis
  proof (cases "list_ex write_fails (redo_entries now store fromIndex)")
    case True
    with None have "redo_aborts write_fails now store fromIndex" by (simp add: redo_aborts_def)
    with cascadeRedo_fault [OF None True] show ?thesis by simp
  next
    case False
    with None have n: "\<not> redo_aborts write_fails now store fromIndex"
      by (simp add: redo_aborts_def)
    have snap: "map ae_snapshot (redo_entries now store fromIndex) = redo_targets store fromIndex"
      by (simp add: redo_entries_def snapshot_of_def comp_def)
    note d = cascadeRedo_done [OF None False, of alsoResetScript]
    from d(3) cleared_results_footprint [of now fromIndex "segmentResults (store_unit store)"]
    have foot: "list_all (\<lambda>r. \<not> affected fromIndex r)
            (segmentResults
               (store_unit (snd (cascadeRedo write_fails now store fromIndex alsoResetScript))))"
      by simp
    from n d(1) d(2) d(3) snap foot show ?thesis
      by (simp add: cleared_results_def)
  qed
qed

text \<open>
  C4 on Scenario C, a redo from segment 1 of a unit with three completed segments: two
  archive entries, both results pending, status \<open>ScriptReady\<close>; and with the write for
  segment 2 made to fail, which leaves the unit and the archive untouched.
\<close>

theorem cascadeRedo_all_or_nothing_witness:
  "\<not> redo_aborts no_fault 9 sample_store 1
   \<and> fst (cascadeRedo no_fault 9 sample_store 1 False)
       = Inr \<lparr>archived = [snapshot_of ''X'' 9 (completed_result 1),
                           snapshot_of ''X'' 9 (completed_result 2)],
               cleared = [1, 2]\<rparr>
   \<and> segmentResults (store_unit (snd (cascadeRedo no_fault 9 sample_store 1 False)))
       = [completed_result 0, pending_result 1 9, pending_result 2 9]
   \<and> unit_status (store_unit (snd (cascadeRedo no_fault 9 sample_store 1 False))) = ScriptReady
   \<and> redo_aborts fault_at_2 9 sample_store 1
   \<and> isl (fst (cascadeRedo fault_at_2 9 sample_store 1 False))
   \<and> store_unit (snd (cascadeRedo fault_at_2 9 sample_store 1 False)) = sample_unit
   \<and> store_archive (snd (cascadeRedo fault_at_2 9 sample_store 1 False)) = []"
proof -
  have h1: "\<not> redo_aborts no_fault 9 sample_store 1" by code_simp
  have h2: "redo_aborts fault_at_2 9 sample_store 1" by code_simp
  have e1: "redo_entries 9 sample_store 1
      = [snapshot_of ''X'' 9 (completed_result 1), snapshot_of ''X'' 9 (completed_result 2)]"
    by code_simp
  have e2: "map sr_index (redo_targets sample_store 1) = [1, 2]" by code_simp
  have e3: "map (\<lambda>r. if affected 1 r then clear_result 9 r else r)
                (segmentResults (store_unit sample_store))
      = [completed_result 0, pending_result 1 9, pending_result 2 9]" by code_simp
  have e4: "unit_status (store_unit (snd (cascadeRedo no_fault 9 sample_store 1 False)))
      = ScriptReady" by code_simp
  have e5: "store_unit sample_store = sample_unit" "store_archive sample_store = []"
    by code_simp+
  note A = cascadeRedo_all_or_nothing [of no_fault 9 sample_store 1 False,
             THEN conjunct2, THEN conjunct2, rule_format, OF h1]
  note B = cascadeRedo_all_or_nothing [of fault_at_2 9 sample_store 1 False,
             THEN conjunct2, THEN conjunct1, rule_format, OF h2]
  note C = cascadeRedo_all_or_nothing [of fault_at_2 9 sample_store 1 False, THEN conjunct1]
  from A e1 e2 e3 have
    "fst (cascadeRedo no_fault 9 sample_store 1 False)
       = Inr \<lparr>archived = [snapshot_of ''X'' 9 (completed_result 1),
                           snapshot_of ''X'' 9 (completed_result 2)],
               cleared = [1, 2]\<rparr>"
    "segmentResults (store_unit (snd (cascadeRedo no_fault 9 sample_store 1 False)))
       = [completed_result 0, pending_result 1 9, pending_result 2 9]"
    by simp_all
  moreover from B e5 have
    "store_unit (snd (cascadeRedo fault_at_2 9 sample_store 1 False)) = sample_unit"
    "store_archive (snd (cascadeRedo fault_at_2 9 sample_store 1 False)) = []"
    by simp_all
  moreover from C h2 have "isl (fst (cascadeRedo fault_at_2 9 sample_store 1 False))" by simp
  ultimately show ?thesis using h1 h2 e4 by blast
qed

end
